theory Spec2Isabelle
  imports Complex_Main
begin

section \<open>Strings and the string literals of app.js\<close>

text \<open>
  A JavaScript string is modelled by the bytes of its UTF-8 encoding, so that the ASCII
  literals of the program are ordinary string literals and the Japanese messages are
  byte lists. Each message below is the literal of the named line of
  \<^verbatim>\<open>src/web/static/js/app.js\<close>, byte for byte. A byte below 128 occurs in UTF-8
  only as the ASCII character itself, so splitting at a dot and comparing with an ASCII
  literal give on the bytes what they give on the characters.
\<close>

definition msg_unsupported_format :: string where
  \<comment> \<open>line 61: "unsupported file format; choose an MP3, WAV, OGG or M4A file"\<close>
  "msg_unsupported_format =
    [CHR 0xE5, CHR 0xAF, CHR 0xBE, CHR 0xE5, CHR 0xBF, CHR 0x9C, CHR 0xE3, CHR 0x81, CHR 0x97,
     CHR 0xE3, CHR 0x81, CHR 0xA6, CHR 0xE3, CHR 0x81, CHR 0x84, CHR 0xE3, CHR 0x81, CHR 0xAA,
     CHR 0xE3, CHR 0x81, CHR 0x84, CHR 0xE3, CHR 0x83, CHR 0x95, CHR 0xE3, CHR 0x82, CHR 0xA1,
     CHR 0xE3, CHR 0x82, CHR 0xA4, CHR 0xE3, CHR 0x83, CHR 0xAB, CHR 0xE5, CHR 0xBD, CHR 0xA2,
     CHR 0xE5, CHR 0xBC, CHR 0x8F, CHR 0xE3, CHR 0x81, CHR 0xA7, CHR 0xE3, CHR 0x81, CHR 0x99,
     CHR 0xE3, CHR 0x80, CHR 0x82]
    @ ''MP3, WAV, OGG, M4A'' @
    [CHR 0xE5, CHR 0xBD, CHR 0xA2, CHR 0xE5, CHR 0xBC, CHR 0x8F, CHR 0xE3, CHR 0x81, CHR 0xAE,
     CHR 0xE3, CHR 0x83, CHR 0x95, CHR 0xE3, CHR 0x82, CHR 0xA1, CHR 0xE3, CHR 0x82, CHR 0xA4,
     CHR 0xE3, CHR 0x83, CHR 0xAB, CHR 0xE3, CHR 0x82, CHR 0x92, CHR 0xE9, CHR 0x81, CHR 0xB8,
     CHR 0xE6, CHR 0x8A, CHR 0x9E, CHR 0xE3, CHR 0x81, CHR 0x97, CHR 0xE3, CHR 0x81, CHR 0xA6,
     CHR 0xE3, CHR 0x81, CHR 0x8F, CHR 0xE3, CHR 0x81, CHR 0xA0, CHR 0xE3, CHR 0x81, CHR 0x95,
     CHR 0xE3, CHR 0x81, CHR 0x84, CHR 0xE3, CHR 0x80, CHR 0x82]"

definition msg_file_too_large :: string where
  \<comment> \<open>line 67: "the file is too large; choose a file of 16MB or less"\<close>
  "msg_file_too_large =
    [CHR 0xE3, CHR 0x83, CHR 0x95, CHR 0xE3, CHR 0x82, CHR 0xA1, CHR 0xE3, CHR 0x82, CHR 0xA4,
     CHR 0xE3, CHR 0x83, CHR 0xAB, CHR 0xE3, CHR 0x82, CHR 0xB5, CHR 0xE3, CHR 0x82, CHR 0xA4,
     CHR 0xE3, CHR 0x82, CHR 0xBA, CHR 0xE3, CHR 0x81, CHR 0x8C, CHR 0xE5, CHR 0xA4, CHR 0xA7,
     CHR 0xE3, CHR 0x81, CHR 0x8D, CHR 0xE3, CHR 0x81, CHR 0x99, CHR 0xE3, CHR 0x81, CHR 0x8E,
     CHR 0xE3, CHR 0x81, CHR 0xBE, CHR 0xE3, CHR 0x81, CHR 0x99, CHR 0xE3, CHR 0x80, CHR 0x82]
    @ ''16MB'' @
    [CHR 0xE4, CHR 0xBB, CHR 0xA5, CHR 0xE4, CHR 0xB8, CHR 0x8B, CHR 0xE3, CHR 0x81, CHR 0xAE,
     CHR 0xE3, CHR 0x83, CHR 0x95, CHR 0xE3, CHR 0x82, CHR 0xA1, CHR 0xE3, CHR 0x82, CHR 0xA4,
     CHR 0xE3, CHR 0x83, CHR 0xAB, CHR 0xE3, CHR 0x82, CHR 0x92, CHR 0xE9, CHR 0x81, CHR 0xB8,
     CHR 0xE6, CHR 0x8A, CHR 0x9E, CHR 0xE3, CHR 0x81, CHR 0x97, CHR 0xE3, CHR 0x81, CHR 0xA6,
     CHR 0xE3, CHR 0x81, CHR 0x8F, CHR 0xE3, CHR 0x81, CHR 0xA0, CHR 0xE3, CHR 0x81, CHR 0x95,
     CHR 0xE3, CHR 0x81, CHR 0x84, CHR 0xE3, CHR 0x80, CHR 0x82]"

definition msg_unknown_error :: string where
  \<comment> \<open>line 92: "an unknown error occurred"\<close>
  "msg_unknown_error =
    [CHR 0xE4, CHR 0xB8, CHR 0x8D, CHR 0xE6, CHR 0x98, CHR 0x8E, CHR 0xE3, CHR 0x81, CHR 0xAA,
     CHR 0xE3, CHR 0x82, CHR 0xA8, CHR 0xE3, CHR 0x83, CHR 0xA9, CHR 0xE3, CHR 0x83, CHR 0xBC,
     CHR 0xE3, CHR 0x81, CHR 0x8C, CHR 0xE7, CHR 0x99, CHR 0xBA, CHR 0xE7, CHR 0x94, CHR 0x9F,
     CHR 0xE3, CHR 0x81, CHR 0x97, CHR 0xE3, CHR 0x81, CHR 0xBE, CHR 0xE3, CHR 0x81, CHR 0x97,
     CHR 0xE3, CHR 0x81, CHR 0x9F]"

definition msg_network_error :: string where
  \<comment> \<open>line 97: "a network error occurred; check the internet connection"\<close>
  "msg_network_error =
    [CHR 0xE3, CHR 0x83, CHR 0x8D, CHR 0xE3, CHR 0x83, CHR 0x83, CHR 0xE3, CHR 0x83, CHR 0x88,
     CHR 0xE3, CHR 0x83, CHR 0xAF, CHR 0xE3, CHR 0x83, CHR 0xBC, CHR 0xE3, CHR 0x82, CHR 0xAF,
     CHR 0xE3, CHR 0x82, CHR 0xA8, CHR 0xE3, CHR 0x83, CHR 0xA9, CHR 0xE3, CHR 0x83, CHR 0xBC,
     CHR 0xE3, CHR 0x81, CHR 0x8C, CHR 0xE7, CHR 0x99, CHR 0xBA, CHR 0xE7, CHR 0x94, CHR 0x9F,
     CHR 0xE3, CHR 0x81, CHR 0x97, CHR 0xE3, CHR 0x81, CHR 0xBE, CHR 0xE3, CHR 0x81, CHR 0x97,
     CHR 0xE3, CHR 0x81, CHR 0x9F, CHR 0xE3, CHR 0x80, CHR 0x82, CHR 0xE3, CHR 0x82, CHR 0xA4,
     CHR 0xE3, CHR 0x83, CHR 0xB3, CHR 0xE3, CHR 0x82, CHR 0xBF, CHR 0xE3, CHR 0x83, CHR 0xBC,
     CHR 0xE3, CHR 0x83, CHR 0x8D, CHR 0xE3, CHR 0x83, CHR 0x83, CHR 0xE3, CHR 0x83, CHR 0x88,
     CHR 0xE6, CHR 0x8E, CHR 0xA5, CHR 0xE7, CHR 0xB6, CHR 0x9A, CHR 0xE3, CHR 0x82, CHR 0x92,
     CHR 0xE7, CHR 0xA2, CHR 0xBA, CHR 0xE8, CHR 0xAA, CHR 0x8D, CHR 0xE3, CHR 0x81, CHR 0x97,
     CHR 0xE3, CHR 0x81, CHR 0xA6, CHR 0xE3, CHR 0x81, CHR 0x8F, CHR 0xE3, CHR 0x81, CHR 0xA0,
     CHR 0xE3, CHR 0x81, CHR 0x95, CHR 0xE3, CHR 0x81, CHR 0x84, CHR 0xE3, CHR 0x80, CHR 0x82]"

definition msg_display_error :: string where
  \<comment> \<open>line 142: "an error occurred while displaying the results"\<close>
  "msg_display_error =
    [CHR 0xE7, CHR 0xB5, CHR 0x90, CHR 0xE6, CHR 0x9E, CHR 0x9C, CHR 0xE3, CHR 0x81, CHR 0xAE,
     CHR 0xE8, CHR 0xA1, CHR 0xA8, CHR 0xE7, CHR 0xA4, CHR 0xBA, CHR 0xE4, CHR 0xB8, CHR 0xAD,
     CHR 0xE3, CHR 0x81, CHR 0xAB, CHR 0xE3, CHR 0x82, CHR 0xA8, CHR 0xE3, CHR 0x83, CHR 0xA9,
     CHR 0xE3, CHR 0x83, CHR 0xBC, CHR 0xE3, CHR 0x81, CHR 0x8C, CHR 0xE7, CHR 0x99, CHR 0xBA,
     CHR 0xE7, CHR 0x94, CHR 0x9F, CHR 0xE3, CHR 0x81, CHR 0x97, CHR 0xE3, CHR 0x81, CHR 0xBE,
     CHR 0xE3, CHR 0x81, CHR 0x97, CHR 0xE3, CHR 0x81, CHR 0x9F]"

definition seconds_suffix :: string where
  \<comment> \<open>line 127: a space and the character for "seconds"\<close>
  "seconds_suffix = [CHR 0x20, CHR 0xE7, CHR 0xA7, CHR 0x92]"

text \<open>
  \<^verbatim>\<open>String.prototype.toLowerCase\<close> on the bytes: the ASCII capitals are mapped to
  their small letters and every other byte is kept. (The Unicode mapping of a character
  outside ASCII is not modelled; no such character lower-cases to a letter or digit of
  \<^verbatim>\<open>mp3\<close>, \<^verbatim>\<open>wav\<close>, \<^verbatim>\<open>ogg\<close> or \<^verbatim>\<open>m4a\<close>.)
\<close>

definition lower_char :: "char \<Rightarrow> char" where
  "lower_char c =
     (case map_of (zip ''ABCDEFGHIJKLMNOPQRSTUVWXYZ'' ''abcdefghijklmnopqrstuvwxyz'') c of
        None \<Rightarrow> c
      | Some d \<Rightarrow> d)"

definition toLowerCase :: "string \<Rightarrow> string" where
  "toLowerCase s = map lower_char s"

text \<open>
  \<^verbatim>\<open>s.split(sep)\<close> for a one-character separator: the pieces between the
  separators, in order; a string without the separator is returned whole, as the only
  piece, and the empty string gives one empty piece.
\<close>

fun js_split :: "string \<Rightarrow> char \<Rightarrow> string list" where
  "js_split [] sep = [[]]"
| "js_split (c # cs) sep =
     (if c = sep then [] # js_split cs sep
      else (case js_split cs sep of
              [] \<Rightarrow> [[c]]
            | w # ws \<Rightarrow> (c # w) # ws))"

text \<open>\<^verbatim>\<open>Array.prototype.pop\<close>: the last element, \<^verbatim>\<open>undefined\<close> on an empty array.\<close>

definition js_pop :: "'a list \<Rightarrow> 'a option" where
  "js_pop xs = (if xs = [] then None else Some (last xs))"

definition js_includes :: "'a list \<Rightarrow> 'a \<Rightarrow> bool" where
  "js_includes xs x = (x \<in> set xs)"

section \<open>JavaScript values\<close>

text \<open>
  The value of \<^verbatim>\<open>await response.json()\<close> is whatever JSON the server sent, so
  the model has all of them. A number read from JSON is a finite double, that is a
  rational, or an infinity (\<^verbatim>\<open>1e999\<close>); it is never NaN, and the program does no
  arithmetic.
\<close>

datatype number = Finite rat | PosInfinity | NegInfinity

text \<open>
  An object is the association list of its own properties, one entry per key.
  \<^verbatim>\<open>Undefined\<close> is the value of a property that is not there.
\<close>

datatype jsval =
    Undefined
  | Null
  | Bool bool
  | Num number
  | Str string
  | Arr "jsval list"
  | Obj "(string \<times> jsval) list"

fun truthy :: "jsval \<Rightarrow> bool" where
  "truthy Undefined = False"
| "truthy Null = False"
| "truthy (Bool b) = b"
| "truthy (Num (Finite r)) = (r \<noteq> 0)"
| "truthy (Num PosInfinity) = True"
| "truthy (Num NegInfinity) = True"
| "truthy (Str s) = (s \<noteq> [])"
| "truthy (Arr xs) = True"
| "truthy (Obj kvs) = True"

text \<open>\<^verbatim>\<open>a || b\<close>: the left operand when it is truthy, otherwise the right one.\<close>

definition js_or :: "jsval \<Rightarrow> jsval \<Rightarrow> jsval" where
  "js_or a b = (if truthy a then a else b)"

text \<open>
  Property access \<^verbatim>\<open>v.k\<close>; \<open>None\<close> is the TypeError of reading a property of
  \<^verbatim>\<open>undefined\<close> or \<^verbatim>\<open>null\<close>. The program reads only the names
  \<^verbatim>\<open>success\<close>, \<^verbatim>\<open>error\<close>, \<^verbatim>\<open>word\<close>, \<^verbatim>\<open>phonetic\<close>, \<^verbatim>\<open>stats\<close>,
  \<^verbatim>\<open>mean_pitch\<close>, \<^verbatim>\<open>min_pitch\<close>, \<^verbatim>\<open>max_pitch\<close>, \<^verbatim>\<open>duration\<close> and \<^verbatim>\<open>plot\<close>,
  which no built-in prototype defines, so a value that is not an object gives
  \<^verbatim>\<open>undefined\<close>.
\<close>

fun get_prop :: "jsval \<Rightarrow> string \<Rightarrow> jsval option" where
  "get_prop Undefined k = None"
| "get_prop Null k = None"
| "get_prop (Obj kvs) k = Some (case map_of kvs k of None \<Rightarrow> Undefined | Some v \<Rightarrow> v)"
| "get_prop v k = Some Undefined"

text \<open>
  \<^verbatim>\<open>Object.keys(v).length\<close>: the number of own enumerable properties; a TypeError
  on \<^verbatim>\<open>undefined\<close> and \<^verbatim>\<open>null\<close>. A string has one index property per code unit;
  the model counts its bytes, which is positive for the same strings.
\<close>

fun object_keys_length :: "jsval \<Rightarrow> nat option" where
  "object_keys_length Undefined = None"
| "object_keys_length Null = None"
| "object_keys_length (Bool b) = Some 0"
| "object_keys_length (Num x) = Some 0"
| "object_keys_length (Str s) = Some (length s)"
| "object_keys_length (Arr xs) = Some (length xs)"
| "object_keys_length (Obj kvs) = Some (length kvs)"

text \<open>
  \<^verbatim>\<open>ToString\<close>, as a template literal and the DOM apply it; \<open>None\<close> is a TypeError.
  \<open>nts\<close> is the engine's \<^verbatim>\<open>Number::toString\<close> on a finite number (the shortest
  digits that read back as the same double), which is taken as a parameter. An array
  joins its elements with commas, \<^verbatim>\<open>null\<close> giving the empty string. A plain
  object gives \<^verbatim>\<open>[object Object]\<close> through \<^verbatim>\<open>Object.prototype.toString\<close>,
  unless an own property \<^verbatim>\<open>toString\<close> (never a function in JSON) hides it: then
  no conversion is left and the engine throws.
\<close>

fun join_comma :: "string list \<Rightarrow> string" where
  "join_comma [] = []"
| "join_comma [x] = x"
| "join_comma (x # y # ys) = x @ '','' @ join_comma (y # ys)"

fun ToString :: "(rat \<Rightarrow> string) \<Rightarrow> jsval \<Rightarrow> string option"
  and ToString_elements :: "(rat \<Rightarrow> string) \<Rightarrow> jsval list \<Rightarrow> string list option" where
  "ToString nts Undefined = Some ''undefined''"
| "ToString nts Null = Some ''null''"
| "ToString nts (Bool b) = Some (if b then ''true'' else ''false'')"
| "ToString nts (Num (Finite r)) = Some (nts r)"
| "ToString nts (Num PosInfinity) = Some ''Infinity''"
| "ToString nts (Num NegInfinity) = Some ''-Infinity''"
| "ToString nts (Str s) = Some s"
| "ToString nts (Arr xs) = map_option join_comma (ToString_elements nts xs)"
| "ToString nts (Obj kvs) =
     (if ''toString'' \<in> fst ` set kvs then None else Some ''[object Object]'')"
| "ToString_elements nts [] = Some []"
| "ToString_elements nts (x # xs) =
     (case (case x of Undefined \<Rightarrow> Some [] | Null \<Rightarrow> Some [] | _ \<Rightarrow> ToString nts x) of
        None \<Rightarrow> None
      | Some a \<Rightarrow> (case ToString_elements nts xs of
                    None \<Rightarrow> None
                  | Some as \<Rightarrow> Some (a # as)))"

text \<open>
  What the setter of \<^verbatim>\<open>textContent\<close> stores: the attribute is a nullable string,
  so \<^verbatim>\<open>undefined\<close> and \<^verbatim>\<open>null\<close> give the empty text and anything else is
  converted with \<^verbatim>\<open>ToString\<close>.
\<close>

fun textContent_value :: "(rat \<Rightarrow> string) \<Rightarrow> jsval \<Rightarrow> string option" where
  "textContent_value nts Undefined = Some []"
| "textContent_value nts Null = Some []"
| "textContent_value nts v = ToString nts v"

section \<open>Number.prototype.toFixed\<close>

definition digit_char :: "nat \<Rightarrow> char" where
  "digit_char d = ''0123456789'' ! d"

function digits :: "nat \<Rightarrow> string" where
  "digits n = (if n < 10 then [digit_char n] else digits (n div 10) @ [digit_char (n mod 10)])"
  by pat_completeness auto
termination
  by (relation "measure id") auto

declare digits.simps [simp del]

text \<open>
  ECMA-262, \<^verbatim>\<open>Number.prototype.toFixed(f)\<close> for \<open>0 \<le> f \<le> 100\<close> (the program
  passes 1 and 2): a number that is not finite is converted by \<^verbatim>\<open>Number::toString\<close>;
  otherwise the sign is split off and, below \<open>10^21\<close>, \<open>n\<close> is the integer for which
  \<open>n / 10^f\<close> is closest to the number, the larger one of two; its digits are padded
  with zeros to \<open>f + 1\<close> places and the point goes before the last \<open>f\<close>.
\<close>

definition toFixed :: "(rat \<Rightarrow> string) \<Rightarrow> number \<Rightarrow> nat \<Rightarrow> string" where
  "toFixed nts x f =
     (case x of
        PosInfinity \<Rightarrow> ''Infinity''
      | NegInfinity \<Rightarrow> ''-Infinity''
      | Finite r \<Rightarrow>
          (let s = (if r < 0 then ''-'' else []);
               a = \<bar>r\<bar>
           in if 10 ^ 21 \<le> a then s @ nts a
              else
                (let n = nat \<lfloor>a * 10 ^ f + 1 / 2\<rfloor>;
                     m = digits n
                 in if f \<noteq> 0 then
                      (let k = length m;
                           m' = (if k \<le> f then replicate (f + 1 - k) (CHR ''0'') @ m else m);
                           k' = (if k \<le> f then f + 1 else k)
                       in s @ take (k' - f) m' @ ''.'' @ drop (k' - f) m')
                    else s @ m)))"

text \<open>
  The method call \<^verbatim>\<open>v.toFixed(f)\<close>: only a number has the method; on
  \<^verbatim>\<open>undefined\<close> and \<^verbatim>\<open>null\<close> the property read throws, on every other value
  the property is not a function and the call throws.
\<close>

fun call_toFixed :: "(rat \<Rightarrow> string) \<Rightarrow> jsval \<Rightarrow> nat \<Rightarrow> string option" where
  "call_toFixed nts (Num x) f = Some (toFixed nts x f)"
| "call_toFixed nts v f = None"

section \<open>The page and the browser resources\<close>

text \<open>A \<^verbatim>\<open>File\<close>: its name and its size in bytes (the content is opaque).\<close>

record js_file =
  file_name :: string
  file_size :: nat

text \<open>
  The \<^verbatim>\<open>audio\<close> element made by \<^verbatim>\<open>addAudioPlayer\<close>. Its source is an object
  URL, named by its position in the list of the URLs created so far.
\<close>

record audio =
  audio_controls :: bool
  audio_width :: string
  audio_maxWidth :: string
  audio_src :: nat

text \<open>
  Everything the program reads and writes. A field of the document is \<open>None\<close> when
  \<^verbatim>\<open>document.getElementById\<close> finds no element of that id, and otherwise holds the
  one property the program touches: the inline \<^verbatim>\<open>style.display\<close> of a section, the
  \<^verbatim>\<open>textContent\<close> of a text region, the \<^verbatim>\<open>value\<close> of the file input, the
  \<^verbatim>\<open>src\<close> and \<^verbatim>\<open>style.display\<close> of the plot image, the \<^verbatim>\<open>audio\<close>
  children of the player mount. The elements are distinct and none lies inside a text
  region or the player mount. The fields that \<^verbatim>\<open>init\<close> caches in the controller
  are the elements of the same ids, so one field stands for both.
  \<open>object_urls\<close> logs the calls of \<^verbatim>\<open>URL.createObjectURL\<close>, \<open>revoked\<close> those of
  \<^verbatim>\<open>URL.revokeObjectURL\<close>, \<open>requests\<close> those of \<^verbatim>\<open>fetch('/upload', ...)\<close>.
\<close>

record page =
  fileInput :: "string option"
  loadingSection :: "string option"
  resultsSection :: "string option"
  errorSection :: "string option"
  errorMessage :: "string option"
  wordText :: "string option"
  phoneticText :: "string option"
  meanPitch :: "string option"
  pitchRange :: "string option"
  duration :: "string option"
  plotImage :: "(string \<times> string) option"
  audioPlayer :: "audio list option"
  object_urls :: "js_file list"
  revoked :: "nat list"
  requests :: "js_file list"

text \<open>
  How a statement completes: normally, or by throwing. Every exception of this program
  is handled alike, so it carries no value. A statement maps the page to its completion
  and the page it leaves; what it wrote before throwing stays written.
\<close>

datatype completion = Normal | Throw

type_synonym stmt = "page \<Rightarrow> completion \<times> page"

definition then_do :: "stmt \<Rightarrow> stmt \<Rightarrow> stmt" where
  "then_do p q s = (case p s of (Normal, s') \<Rightarrow> q s' | (Throw, s') \<Rightarrow> (Throw, s'))"

definition try_catch :: "stmt \<Rightarrow> stmt \<Rightarrow> stmt" where
  "try_catch p handler s = (case p s of (Normal, s') \<Rightarrow> (Normal, s') | (Throw, s') \<Rightarrow> handler s')"

text \<open>
  An assignment \<^verbatim>\<open>document.getElementById(id).prop = e\<close>: it throws when there
  is no such element or when evaluating \<open>e\<close> threw (\<open>rhs = None\<close>), and writes
  otherwise.
\<close>

definition assign :: "(page \<Rightarrow> 'a option) \<Rightarrow> ('b \<Rightarrow> page \<Rightarrow> page) \<Rightarrow> 'b option \<Rightarrow> stmt" where
  "assign element put rhs s =
     (case element s of
        None \<Rightarrow> (Throw, s)
      | Some old \<Rightarrow> (case rhs of None \<Rightarrow> (Throw, s) | Some v \<Rightarrow> (Normal, put v s)))"

section \<open>PitchAnalyzerApp\<close>

text \<open>Lines 182-194: each of the three sections that exists gets \<^verbatim>\<open>display = 'none'\<close>.\<close>

definition hideAllSections :: "page \<Rightarrow> page" where
  "hideAllSections s =
     s\<lparr>loadingSection := map_option (\<lambda>d. ''none'') (loadingSection s),
       resultsSection := map_option (\<lambda>d. ''none'') (resultsSection s),
       errorSection := map_option (\<lambda>d. ''none'') (errorSection s)\<rparr>"

text \<open>Lines 101-106.\<close>

definition showLoading :: stmt where
  "showLoading =
     then_do (\<lambda>s. (Normal, hideAllSections s))
       (assign loadingSection (\<lambda>v s. s\<lparr>loadingSection := Some v\<rparr>) (Some ''block''))"

text \<open>Lines 171-180. The message is any value; the DOM converts it to text.\<close>

definition showError :: "(rat \<Rightarrow> string) \<Rightarrow> jsval \<Rightarrow> stmt" where
  "showError nts message =
     then_do (\<lambda>s. (Normal, hideAllSections s))
    (then_do (assign errorMessage (\<lambda>v s. s\<lparr>errorMessage := Some v\<rparr>)
                (textContent_value nts message))
             (assign errorSection (\<lambda>v s. s\<lparr>errorSection := Some v\<rparr>) (Some ''block'')))"

text \<open>
  Lines 146-169: the mount is emptied, a new \<^verbatim>\<open>audio\<close> element gets a fresh
  object URL of the file and becomes the only child. The listener it registers is
  \<open>ended_listener\<close>.
\<close>

definition addAudioPlayer :: "js_file \<Rightarrow> stmt" where
  "addAudioPlayer f s =
     (case audioPlayer s of
        None \<Rightarrow> (Throw, s)
      | Some old \<Rightarrow>
          (let audioURL = length (object_urls s);
               a = \<lparr>audio_controls = True, audio_width = ''100%'', audio_maxWidth = ''500px'',
                    audio_src = audioURL\<rparr>
           in (Normal, s\<lparr>audioPlayer := Some [a],
                          object_urls := object_urls s @ [f]\<rparr>)))"

text \<open>Lines 166-168: what runs when the element \<open>a\<close> fires \<^verbatim>\<open>ended\<close>.\<close>

definition ended_listener :: "audio \<Rightarrow> page \<Rightarrow> page" where
  "ended_listener a s = s\<lparr>revoked := revoked s @ [audio_src a]\<rparr>"

text \<open>
  Playback of the \<open>i\<close>-th attached player reaches its end. An element that was removed
  from the document is paused by the browser and fires nothing.
\<close>

definition audio_ended :: "nat \<Rightarrow> page \<Rightarrow> page" where
  "audio_ended i s =
     (case audioPlayer s of
        None \<Rightarrow> s
      | Some as \<Rightarrow> (if i < length as then ended_listener (as ! i) s else s))"

text \<open>Lines 117-125: the statistics, or the placeholder.\<close>

definition display_stats :: "(rat \<Rightarrow> string) \<Rightarrow> jsval \<Rightarrow> stmt" where
  "display_stats nts result s =
     (case get_prop result ''stats'' of
        None \<Rightarrow> (Throw, s)
      | Some stats \<Rightarrow>
         (case (if truthy stats then map_option (\<lambda>n. 0 < n) (object_keys_length stats)
                else Some False) of
            None \<Rightarrow> (Throw, s)
          | Some True \<Rightarrow>
              then_do
                (assign meanPitch (\<lambda>v s. s\<lparr>meanPitch := Some v\<rparr>)
                   (Option.bind (get_prop stats ''mean_pitch'') (\<lambda>m.
                    Option.bind (call_toFixed nts m 1) (\<lambda>a. Some (a @ '' Hz'')))))
                (assign pitchRange (\<lambda>v s. s\<lparr>pitchRange := Some v\<rparr>)
                   (Option.bind (get_prop stats ''min_pitch'') (\<lambda>lo.
                    Option.bind (call_toFixed nts lo 1) (\<lambda>a.
                    Option.bind (get_prop stats ''max_pitch'') (\<lambda>hi.
                    Option.bind (call_toFixed nts hi 1) (\<lambda>b.
                    Some (a @ '' - '' @ b @ '' Hz'')))))))
                s
          | Some False \<Rightarrow>
              then_do
                (assign meanPitch (\<lambda>v s. s\<lparr>meanPitch := Some v\<rparr>) (Some ''N/A''))
                (assign pitchRange (\<lambda>v s. s\<lparr>pitchRange := Some v\<rparr>) (Some ''N/A''))
                s))"

text \<open>
  Lines 108-144: the body of the \<^verbatim>\<open>try\<close>, then the method with its
  \<^verbatim>\<open>catch\<close>. A rejected promise of this \<^verbatim>\<open>async\<close> method is the
  completion \<open>Throw\<close>: it is what \<^verbatim>\<open>await\<close> rethrows in the caller.
\<close>

definition render_steps :: "(rat \<Rightarrow> string) \<Rightarrow> jsval \<Rightarrow> js_file \<Rightarrow> stmt" where
  \<comment> \<open>the body of the \<^verbatim>\<open>try\<close>, lines 110-138\<close>
  "render_steps nts result f =
       (then_do (\<lambda>s. (Normal, hideAllSections s))
       (then_do (assign wordText (\<lambda>v s. s\<lparr>wordText := Some v\<rparr>)
                   (Option.bind (get_prop result ''word'') (textContent_value nts)))
       (then_do (assign phoneticText (\<lambda>v s. s\<lparr>phoneticText := Some v\<rparr>)
                   (Option.bind (get_prop result ''phonetic'') (textContent_value nts)))
       (then_do (display_stats nts result)
       (then_do (assign duration (\<lambda>v s. s\<lparr>duration := Some v\<rparr>)
                   (Option.bind (get_prop result ''duration'') (\<lambda>d.
                    Option.bind (call_toFixed nts d 2) (\<lambda>a. Some (a @ seconds_suffix)))))
       (then_do (assign plotImage (\<lambda>v s. s\<lparr>plotImage := map_option (\<lambda>p. (v, snd p)) (plotImage s)\<rparr>)
                   (Option.bind (get_prop result ''plot'') (\<lambda>p.
                    Option.bind (ToString nts p) (\<lambda>b. Some (''data:image/png;base64,'' @ b)))))
       (then_do (assign plotImage (\<lambda>v s. s\<lparr>plotImage := map_option (\<lambda>p. (fst p, v)) (plotImage s)\<rparr>)
                   (Some ''block''))
       (then_do (addAudioPlayer f)
                (assign resultsSection (\<lambda>v s. s\<lparr>resultsSection := Some v\<rparr>)
                   (Some ''block''))))))))))"

definition displayResults :: "(rat \<Rightarrow> string) \<Rightarrow> jsval \<Rightarrow> js_file \<Rightarrow> stmt" where
  "displayResults nts result f =
     try_catch (render_steps nts result f) (showError nts (Str msg_display_error))"

text \<open>
  What the network gives back to \<^verbatim>\<open>await fetch(...)\<close> and
  \<^verbatim>\<open>await response.json()\<close>: a rejected request, a body that is not JSON, or the
  parsed value.
\<close>

datatype response = FetchRejected | JsonRejected | Parsed jsval

definition allowedExtensions :: "string list" where
  "allowedExtensions = [''mp3'', ''wav'', ''ogg'', ''m4a'']"

text \<open>Line 57; \<open>None\<close> is the TypeError of calling a method of \<^verbatim>\<open>undefined\<close>.\<close>

definition fileExtension :: "string \<Rightarrow> string option" where
  "fileExtension name = map_option toLowerCase (js_pop (js_split name (CHR ''.'')))"

text \<open>Lines 75-93: the request, and what is done with the answer.\<close>

definition upload :: "(rat \<Rightarrow> string) \<Rightarrow> js_file \<Rightarrow> response \<Rightarrow> stmt" where
  "upload nts f net s =
     (let s' = s\<lparr>requests := requests s @ [f]\<rparr>
      in case net of
           FetchRejected \<Rightarrow> (Throw, s')
         | JsonRejected \<Rightarrow> (Throw, s')
         | Parsed result \<Rightarrow>
            (case get_prop result ''success'' of
               None \<Rightarrow> (Throw, s')
             | Some ok \<Rightarrow>
                (if truthy ok then displayResults nts result f s'
                 else (case get_prop result ''error'' of
                         None \<Rightarrow> (Throw, s')
                       | Some e \<Rightarrow> showError nts (js_or e (Str msg_unknown_error)) s'))))"

text \<open>
  Lines 54-99. The two validation errors are shown outside the \<^verbatim>\<open>try\<close>; the
  answer of the network is the argument \<open>net\<close>.
\<close>

definition handleFileUpload :: "(rat \<Rightarrow> string) \<Rightarrow> js_file \<Rightarrow> response \<Rightarrow> stmt" where
  "handleFileUpload nts f net s =
     (case fileExtension (file_name f) of
        None \<Rightarrow> (Throw, s)
      | Some ext \<Rightarrow>
         (if \<not> js_includes allowedExtensions ext then
            showError nts (Str msg_unsupported_format) s
          else if file_size f > 16 * 1024 * 1024 then
            showError nts (Str msg_file_too_large) s
          else
            try_catch (then_do showLoading (upload nts f net))
              (showError nts (Str msg_network_error)) s))"

text \<open>Lines 198-216, the function outside the class.\<close>

definition resetApp :: stmt where
  "resetApp =
     then_do (assign fileInput (\<lambda>v s. s\<lparr>fileInput := Some v\<rparr>) (Some []))
       (\<lambda>s. (Normal,
          s\<lparr>loadingSection := map_option (\<lambda>d. ''none'') (loadingSection s),
            resultsSection := map_option (\<lambda>d. ''none'') (resultsSection s),
            errorSection := map_option (\<lambda>d. ''none'') (errorSection s),
            audioPlayer := map_option (\<lambda>c. []) (audioPlayer s)\<rparr>))"

section \<open>Sections, states and runs\<close>

text \<open>
  A section is visible when it exists and its inline \<^verbatim>\<open>display\<close> is not
  \<^verbatim>\<open>none\<close>.
\<close>

definition visible :: "string option \<Rightarrow> bool" where
  "visible d = (case d of None \<Rightarrow> False | Some v \<Rightarrow> v \<noteq> ''none'')"

definition visible_sections :: "page \<Rightarrow> string option list" where
  "visible_sections s = filter visible [loadingSection s, resultsSection s, errorSection s]"

definition at_most_one_visible :: "page \<Rightarrow> bool" where
  "at_most_one_visible s = (length (visible_sections s) \<le> 1)"

datatype UIState = Idle | Loading | Results | Error

definition ui_state :: "page \<Rightarrow> UIState option" where
  "ui_state s =
     (case (visible (loadingSection s), visible (resultsSection s), visible (errorSection s)) of
        (False, False, False) \<Rightarrow> Some Idle
      | (True, False, False) \<Rightarrow> Some Loading
      | (False, True, False) \<Rightarrow> Some Results
      | (False, False, True) \<Rightarrow> Some Error
      | _ \<Rightarrow> None)"

text \<open>The events and calls that change the page, and a run of them from a page.\<close>

datatype operation =
    ShowLoading
  | DisplayResults jsval js_file
  | ShowError jsval
  | ResetApp
  | HandleFileUpload js_file response
  | AudioEnded nat

fun perform :: "(rat \<Rightarrow> string) \<Rightarrow> operation \<Rightarrow> page \<Rightarrow> page" where
  "perform nts ShowLoading s = snd (showLoading s)"
| "perform nts (DisplayResults result f) s = snd (displayResults nts result f s)"
| "perform nts (ShowError message) s = snd (showError nts message s)"
| "perform nts ResetApp s = snd (resetApp s)"
| "perform nts (HandleFileUpload f net) s = snd (handleFileUpload nts f net s)"
| "perform nts (AudioEnded i) s = audio_ended i s"

fun run :: "(rat \<Rightarrow> string) \<Rightarrow> operation list \<Rightarrow> page \<Rightarrow> page" where
  "run nts [] s = s"
| "run nts (op # ops) s = run nts ops (perform nts op s)"

text \<open>
  The object URLs that are live on a page: created and not passed to
  \<^verbatim>\<open>URL.revokeObjectURL\<close>; and those an attached player can still release.
\<close>

definition live_urls :: "page \<Rightarrow> nat list" where
  "live_urls s = filter (\<lambda>u. u \<notin> set (revoked s)) [0 ..< length (object_urls s)]"

definition attached_urls :: "page \<Rightarrow> nat list" where
  "attached_urls s = (case audioPlayer s of None \<Rightarrow> [] | Some as \<Rightarrow> map audio_src as)"

section \<open>The words of the specification\<close>

text \<open>
  "The substring after the final \<^verbatim>\<open>.\<close>" of a name that has one.
\<close>

definition after_final_dot :: "string \<Rightarrow> string" where
  "after_final_dot name = rev (takeWhile (\<lambda>c. c \<noteq> CHR ''.'') (rev name))"

text \<open>
  "Formatted to \<open>f\<close> decimal places": the sign, the whole part of the magnitude rounded
  to the nearest multiple of \<open>10^-f\<close> (a tie goes up), a point and exactly \<open>f\<close>
  digits.
\<close>

definition rounded_scaled :: "nat \<Rightarrow> rat \<Rightarrow> nat" where
  "rounded_scaled f r = nat \<lfloor>\<bar>r\<bar> * 10 ^ f + 1 / 2\<rfloor>"

fun fraction_digits :: "nat \<Rightarrow> nat \<Rightarrow> string" where
  "fraction_digits 0 m = []"
| "fraction_digits (Suc f) m = fraction_digits f (m div 10) @ [digit_char (m mod 10)]"

definition decimal_places :: "nat \<Rightarrow> rat \<Rightarrow> string" where
  "decimal_places f r =
     (if r < 0 then ''-'' else []) @ digits (rounded_scaled f r div 10 ^ f) @ ''.''
       @ fraction_digits f (rounded_scaled f r mod 10 ^ f)"

text \<open>
  The host document of the specification (section 6): every region the program looks up
  is there.
\<close>

definition document_ready :: "page \<Rightarrow> bool" where
  "document_ready s =
     (fileInput s \<noteq> None \<and> loadingSection s \<noteq> None \<and> resultsSection s \<noteq> None \<and>
      errorSection s \<noteq> None \<and> errorMessage s \<noteq> None \<and> wordText s \<noteq> None \<and>
      phoneticText s \<noteq> None \<and> meanPitch s \<noteq> None \<and> pitchRange s \<noteq> None \<and>
      duration s \<noteq> None \<and> plotImage s \<noteq> None \<and> audioPlayer s \<noteq> None)"

text \<open>A page as it is loaded: every region there, empty, with all sections hidden.\<close>

definition fresh_page :: page where
  "fresh_page =
     \<lparr>fileInput = Some [], loadingSection = Some ''none'', resultsSection = Some ''none'',
      errorSection = Some ''none'', errorMessage = Some [], wordText = Some [],
      phoneticText = Some [], meanPitch = Some [], pitchRange = Some [], duration = Some [],
      plotImage = Some ([], ''none''), audioPlayer = Some [], object_urls = [], revoked = [],
      requests = []\<rparr>"

text \<open>A statement preserves a property of the page, however it completes.\<close>

definition preserves :: "(page \<Rightarrow> bool) \<Rightarrow> stmt \<Rightarrow> bool" where
  "preserves I p = (\<forall>s. I s \<longrightarrow> I (snd (p s)))"

text \<open>A statement establishes a property when it holds after it from any page.\<close>

definition establishes :: "(page \<Rightarrow> bool) \<Rightarrow> stmt \<Rightarrow> bool" where
  "establishes Q p = (\<forall>s. Q (snd (p s)))"

text \<open>Of the three sections, none but the results section is visible.\<close>

definition only_results :: "page \<Rightarrow> bool" where
  "only_results s = (\<not> visible (loadingSection s) \<and> \<not> visible (errorSection s))"

text \<open>The page has the two regions that \<^verbatim>\<open>showError\<close> writes.\<close>

definition error_regions :: "page \<Rightarrow> bool" where
  "error_regions s = (errorMessage s \<noteq> None \<and> errorSection s \<noteq> None)"

text \<open>
  The object URL \<open>u\<close> has been created, has not been revoked, and belongs to no
  attached player, so that no \<^verbatim>\<open>ended\<close> event is left to revoke it.
\<close>

definition leaked :: "nat \<Rightarrow> page \<Rightarrow> bool" where
  "leaked u s = (u < length (object_urls s) \<and> u \<notin> set (revoked s) \<and> u \<notin> set (attached_urls s))"

section \<open>Reasoning about statements\<close>

lemma preservesD: "preserves I p \<Longrightarrow> I s \<Longrightarrow> I (snd (p s))"
  by (simp add: preserves_def)

lemma preserves_then_do:
  "preserves I p \<Longrightarrow> preserves I q \<Longrightarrow> preserves I (then_do p q)"
  by (auto simp: preserves_def then_do_def split: prod.splits completion.splits)

lemma preserves_try_catch:
  "preserves I p \<Longrightarrow> preserves I h \<Longrightarrow> preserves I (try_catch p h)"
  by (auto simp: preserves_def try_catch_def split: prod.splits completion.splits)

lemma preserves_assign:
  "(\<And>v s. I s \<Longrightarrow> I (put v s)) \<Longrightarrow> preserves I (assign element put rhs)"
  by (auto simp: preserves_def assign_def split: option.splits)

lemma preserves_pure:
  "(\<And>s. I s \<Longrightarrow> I (h s)) \<Longrightarrow> preserves I (\<lambda>s. (Normal, h s))"
  by (simp add: preserves_def)

subsection \<open>No operation but the upload issues a request\<close>

lemma showError_requests: "preserves (\<lambda>s. requests s = c) (showError nts m)"
  unfolding showError_def
  by (intro preserves_then_do preserves_assign preserves_pure) (simp_all add: hideAllSections_def)

lemma showLoading_requests: "preserves (\<lambda>s. requests s = c) showLoading"
  unfolding showLoading_def
  by (intro preserves_then_do preserves_assign preserves_pure) (simp_all add: hideAllSections_def)

lemma addAudioPlayer_requests: "preserves (\<lambda>s. requests s = c) (addAudioPlayer f)"
  by (auto simp: preserves_def addAudioPlayer_def Let_def split: option.splits)

lemma display_stats_requests: "preserves (\<lambda>s. requests s = c) (display_stats nts result)"
proof -
  have a: "\<And>x. preserves (\<lambda>s. requests s = c) (assign meanPitch (\<lambda>v s. s\<lparr>meanPitch := Some v\<rparr>) x)"
    by (intro preserves_assign) simp
  have b: "\<And>x. preserves (\<lambda>s. requests s = c) (assign pitchRange (\<lambda>v s. s\<lparr>pitchRange := Some v\<rparr>) x)"
    by (intro preserves_assign) simp
  show ?thesis
    unfolding preserves_def display_stats_def
    using preserves_then_do[OF a b, unfolded preserves_def]
    by (auto split: option.splits bool.splits)
qed

lemma render_steps_requests: "preserves (\<lambda>s. requests s = c) (render_steps nts result f)"
  unfolding render_steps_def
  by (intro preserves_then_do preserves_assign preserves_pure display_stats_requests
        addAudioPlayer_requests) (simp_all add: hideAllSections_def)

lemma displayResults_requests: "preserves (\<lambda>s. requests s = c) (displayResults nts result f)"
  unfolding displayResults_def
  by (intro preserves_try_catch render_steps_requests showError_requests)

lemma upload_requests: "requests (snd (upload nts f net s)) = requests s @ [f]"
  using preservesD[OF displayResults_requests[where c="requests s @ [f]"],
          where s="s\<lparr>requests := requests s @ [f]\<rparr>"]
        preservesD[OF showError_requests[where c="requests s @ [f]"],
          where s="s\<lparr>requests := requests s @ [f]\<rparr>"]
  by (auto simp: upload_def Let_def split: response.splits option.splits)

section \<open>Validation\<close>

lemma js_split_nonempty: "js_split name sep \<noteq> []"
  by (induction name) (auto split: list.splits)

lemma showError_Str:
  "errorMessage s \<noteq> None \<Longrightarrow> errorSection s \<noteq> None \<Longrightarrow>
   showError nts (Str m) s =
     (Normal, (hideAllSections s)\<lparr>errorMessage := Some m, errorSection := Some ''block''\<rparr>)"
  by (auto simp: showError_def then_do_def assign_def hideAllSections_def)

lemma showLoading_eq:
  "loadingSection s \<noteq> None \<Longrightarrow>
   showLoading s = (Normal, (hideAllSections s)\<lparr>loadingSection := Some ''block''\<rparr>)"
  by (auto simp: showLoading_def then_do_def assign_def hideAllSections_def)

lemma error_page:
  fixes s :: page
  defines "t m \<equiv> (hideAllSections s)\<lparr>errorMessage := Some m, errorSection := Some ''block''\<rparr>"
  shows "ui_state (t m) = Some Error" and "errorMessage (t m) = Some m"
    and "requests (t m) = requests s" and "object_urls (t m) = object_urls s"
    and "audioPlayer (t m) = audioPlayer s" and "revoked (t m) = revoked s"
    and "fileInput (t m) = fileInput s"
  by (auto simp: t_def ui_state_def hideAllSections_def visible_def split: option.splits)

lemma messages_distinct: "msg_unsupported_format \<noteq> msg_file_too_large"
  by (simp add: msg_unsupported_format_def msg_file_too_large_def)

lemma handleFileUpload_requests_valid:
  assumes "fileExtension (file_name f) = Some ext" "js_includes allowedExtensions ext"
      and "file_size f \<le> 16 * 1024 * 1024" "loadingSection s \<noteq> None"
  shows "requests (snd (handleFileUpload nts f net s)) = requests s @ [f]"
proof -
  let ?s1 = "(hideAllSections s)\<lparr>loadingSection := Some ''block''\<rparr>"
  have r1: "requests ?s1 = requests s" by (simp add: hideAllSections_def)
  have body: "then_do showLoading (upload nts f net) s = upload nts f net ?s1"
    using assms(4) by (simp add: then_do_def showLoading_eq)
  have "requests (snd (upload nts f net ?s1)) = requests s @ [f]"
    using upload_requests[of nts f net ?s1] r1 by simp
  moreover have "requests (snd (try_catch (then_do showLoading (upload nts f net))
                    (showError nts (Str msg_network_error)) s)) =
                 requests (snd (upload nts f net ?s1))"
    using preservesD[OF showError_requests[where c="requests (snd (upload nts f net ?s1))"],
            where s="snd (upload nts f net ?s1)"] body
    by (auto simp: try_catch_def split: prod.splits completion.splits)
  ultimately show ?thesis using assms(1-3) by (simp add: handleFileUpload_def)
qed

text \<open>
  Claim C3. For a file whose extension is allowed, \<^verbatim>\<open>handleFileUpload\<close> goes on to
  the upload (the request is issued) exactly when the size is at most
  \<open>16 * 1024 * 1024\<close> bytes, the limit itself included; a larger file ends in the Error
  state with the size-too-large message, and no request.
\<close>

theorem size_check_inclusive_limit:
  assumes "fileExtension (file_name f) = Some ext" and "js_includes allowedExtensions ext"
      and "loadingSection s \<noteq> None" and "errorMessage s \<noteq> None" and "errorSection s \<noteq> None"
  shows "((requests (snd (handleFileUpload nts f net s)) = requests s @ [f])
            = (file_size f \<le> 16 * 1024 * 1024)) \<and>
         (16 * 1024 * 1024 < file_size f \<longrightarrow>
            fst (handleFileUpload nts f net s) = Normal \<and>
            ui_state (snd (handleFileUpload nts f net s)) = Some Error \<and>
            errorMessage (snd (handleFileUpload nts f net s)) = Some msg_file_too_large \<and>
            requests (snd (handleFileUpload nts f net s)) = requests s)"
proof (cases "file_size f \<le> 16 * 1024 * 1024")
  case True
  then show ?thesis using handleFileUpload_requests_valid[OF assms(1,2) True assms(3)] by simp
next
  case False
  then have "handleFileUpload nts f net s =
      (Normal, (hideAllSections s)\<lparr>errorMessage := Some msg_file_too_large,
                                    errorSection := Some ''block''\<rparr>)"
    using assms by (simp add: handleFileUpload_def showError_Str)
  then show ?thesis using False
    by (simp add: error_page)
qed

theorem size_check_inclusive_limit_witness:
  "requests (snd (handleFileUpload (\<lambda>r. []) \<lparr>file_name = ''clip.wav'', file_size = 16 * 1024 * 1024\<rparr>
       FetchRejected fresh_page)) = [\<lparr>file_name = ''clip.wav'', file_size = 16 * 1024 * 1024\<rparr>] \<and>
   errorMessage (snd (handleFileUpload (\<lambda>r. []) \<lparr>file_name = ''clip.wav'', file_size = 16 * 1024 * 1024 + 1\<rparr>
       FetchRejected fresh_page)) = Some msg_file_too_large"
proof -
  have e: "fileExtension ''clip.wav'' = Some ''wav''"
    by (simp add: fileExtension_def js_pop_def toLowerCase_def lower_char_def)
  have a: "js_includes allowedExtensions ''wav''"
    by (simp add: js_includes_def allowedExtensions_def)
  show ?thesis
    using size_check_inclusive_limit[of "\<lparr>file_name = ''clip.wav'', file_size = 16 * 1024 * 1024\<rparr>"
            "''wav''" fresh_page "\<lambda>r. []" FetchRejected]
          size_check_inclusive_limit[of "\<lparr>file_name = ''clip.wav'', file_size = 16 * 1024 * 1024 + 1\<rparr>"
            "''wav''" fresh_page "\<lambda>r. []" FetchRejected]
          e a
    by (simp add: fresh_page_def)
qed

text \<open>
  Claim C6. When validation fails, by an extension that is not allowed or by a size over
  the limit, \<^verbatim>\<open>handleFileUpload\<close> ends in the Error state with the message of that
  failure, the two messages are different, no request is issued, no object URL is created
  and the player mount is left as it was.
\<close>

theorem validation_failure_is_local:
  assumes "fileExtension (file_name f) = Some ext"
      and "errorMessage s \<noteq> None" and "errorSection s \<noteq> None"
      and "\<not> js_includes allowedExtensions ext \<or> 16 * 1024 * 1024 < file_size f"
  shows "fst (handleFileUpload nts f net s) = Normal \<and>
         ui_state (snd (handleFileUpload nts f net s)) = Some Error \<and>
         errorMessage (snd (handleFileUpload nts f net s)) =
           Some (if \<not> js_includes allowedExtensions ext then msg_unsupported_format
                 else msg_file_too_large) \<and>
         msg_unsupported_format \<noteq> msg_file_too_large \<and>
         requests (snd (handleFileUpload nts f net s)) = requests s \<and>
         object_urls (snd (handleFileUpload nts f net s)) = object_urls s \<and>
         audioPlayer (snd (handleFileUpload nts f net s)) = audioPlayer s"
proof -
  let ?m = "if \<not> js_includes allowedExtensions ext then msg_unsupported_format
            else msg_file_too_large"
  have "handleFileUpload nts f net s =
      (Normal, (hideAllSections s)\<lparr>errorMessage := Some ?m, errorSection := Some ''block''\<rparr>)"
    using assms by (auto simp: handleFileUpload_def showError_Str)
  then show ?thesis
    by (simp add: error_page messages_distinct)
qed

theorem validation_failure_is_local_witness:
  "errorMessage (snd (handleFileUpload (\<lambda>r. []) \<lparr>file_name = ''track.flac'', file_size = 1000\<rparr>
       (Parsed (Obj [(''success'', Bool True)])) fresh_page)) = Some msg_unsupported_format \<and>
   requests (snd (handleFileUpload (\<lambda>r. []) \<lparr>file_name = ''track.flac'', file_size = 1000\<rparr>
       (Parsed (Obj [(''success'', Bool True)])) fresh_page)) = [] \<and>
   object_urls (snd (handleFileUpload (\<lambda>r. []) \<lparr>file_name = ''track.flac'', file_size = 1000\<rparr>
       (Parsed (Obj [(''success'', Bool True)])) fresh_page)) = []"
proof -
  have e: "fileExtension ''track.flac'' = Some ''flac''"
    by (simp add: fileExtension_def js_pop_def toLowerCase_def lower_char_def)
  have a: "\<not> js_includes allowedExtensions ''flac''"
    by (simp add: js_includes_def allowedExtensions_def)
  show ?thesis
    using validation_failure_is_local[of "\<lparr>file_name = ''track.flac'', file_size = 1000\<rparr>"
            "''flac''" fresh_page "\<lambda>r. []" "Parsed (Obj [(''success'', Bool True)])"] e a
    by (simp add: fresh_page_def)
qed

section \<open>Visibility of the sections\<close>

lemma establishesD: "establishes Q p \<Longrightarrow> Q (snd (p s))"
  by (simp add: establishes_def)

lemma establishes_preserves: "establishes Q p \<Longrightarrow> preserves Q p"
  by (simp add: establishes_def preserves_def)

lemma establishes_then_do:
  "establishes Q p \<Longrightarrow> preserves Q q \<Longrightarrow> establishes Q (then_do p q)"
  by (auto simp: establishes_def preserves_def then_do_def split: prod.splits completion.splits)
     (metis snd_conv)+

lemma establishes_try_catch:
  "establishes Q p \<Longrightarrow> preserves Q h \<Longrightarrow> establishes Q (try_catch p h)"
  by (auto simp: establishes_def preserves_def try_catch_def split: prod.splits completion.splits)
     (metis snd_conv)+

lemma establishes_weaken:
  "establishes P p \<Longrightarrow> (\<And>s. P s \<Longrightarrow> Q s) \<Longrightarrow> establishes Q p"
  by (simp add: establishes_def)

lemma only_results_at_most_one: "only_results s \<Longrightarrow> at_most_one_visible s"
  by (simp add: only_results_def at_most_one_visible_def visible_sections_def)

lemma showLoading_exclusive: "establishes at_most_one_visible showLoading"
  by (auto simp: establishes_def showLoading_def then_do_def assign_def hideAllSections_def
        at_most_one_visible_def visible_sections_def visible_def split: option.splits)

lemma showError_exclusive: "establishes at_most_one_visible (showError nts message)"
  by (auto simp: establishes_def showError_def then_do_def assign_def hideAllSections_def
        at_most_one_visible_def visible_sections_def visible_def split: option.splits)

lemma resetApp_exclusive:
  "fileInput s \<noteq> None \<Longrightarrow> at_most_one_visible (snd (resetApp s))"
  by (auto simp: resetApp_def then_do_def assign_def
        at_most_one_visible_def visible_sections_def visible_def split: option.splits)

lemma resetApp_preserves_exclusive: "preserves at_most_one_visible resetApp"
  by (auto simp: preserves_def resetApp_def then_do_def assign_def
        at_most_one_visible_def visible_sections_def visible_def split: option.splits)

lemma addAudioPlayer_only_results: "preserves only_results (addAudioPlayer f)"
  by (auto simp: preserves_def addAudioPlayer_def Let_def only_results_def split: option.splits)

lemma display_stats_only_results: "preserves only_results (display_stats nts result)"
proof -
  have a: "\<And>x. preserves only_results (assign meanPitch (\<lambda>v s. s\<lparr>meanPitch := Some v\<rparr>) x)"
    by (intro preserves_assign) (simp add: only_results_def)
  have b: "\<And>x. preserves only_results (assign pitchRange (\<lambda>v s. s\<lparr>pitchRange := Some v\<rparr>) x)"
    by (intro preserves_assign) (simp add: only_results_def)
  show ?thesis
    unfolding preserves_def display_stats_def
    using preserves_then_do[OF a b, unfolded preserves_def]
    by (auto split: option.splits bool.splits)
qed

lemma hideAllSections_only_results: "establishes only_results (\<lambda>s. (Normal, hideAllSections s))"
  by (auto simp: establishes_def only_results_def hideAllSections_def visible_def split: option.splits)

lemma render_steps_only_results: "establishes only_results (render_steps nts result f)"
  unfolding render_steps_def
  by (intro establishes_then_do hideAllSections_only_results preserves_then_do preserves_assign
        display_stats_only_results addAudioPlayer_only_results)
     (simp_all add: only_results_def)

lemma displayResults_exclusive: "establishes at_most_one_visible (displayResults nts result f)"
  unfolding displayResults_def
  by (intro establishes_try_catch establishes_preserves showError_exclusive
        establishes_weaken[OF render_steps_only_results] only_results_at_most_one)

lemma upload_preserves_exclusive: "preserves at_most_one_visible (upload nts f net)"
proof -
  have r: "\<And>s. at_most_one_visible (s\<lparr>requests := requests s @ [f]\<rparr>) = at_most_one_visible s"
    by (simp add: at_most_one_visible_def visible_sections_def)
  show ?thesis
    using establishesD[OF displayResults_exclusive] establishesD[OF showError_exclusive]
    by (auto simp: preserves_def upload_def Let_def r split: response.splits option.splits)
qed

lemma handleFileUpload_exclusive: "establishes at_most_one_visible (handleFileUpload nts f net)"
proof -
  have "establishes at_most_one_visible
          (try_catch (then_do showLoading (upload nts f net)) (showError nts (Str msg_network_error)))"
    by (intro establishes_try_catch establishes_then_do showLoading_exclusive
          upload_preserves_exclusive establishes_preserves showError_exclusive)
  then show ?thesis
    using establishesD[OF showError_exclusive]
    by (auto simp: establishes_def handleFileUpload_def fileExtension_def js_pop_def js_split_nonempty)
qed

lemma audio_ended_sections:
  "at_most_one_visible (audio_ended i s) = at_most_one_visible s"
  by (auto simp: audio_ended_def ended_listener_def at_most_one_visible_def visible_sections_def
        split: option.splits)

lemma perform_preserves_exclusive:
  "at_most_one_visible s \<Longrightarrow> at_most_one_visible (perform nts op s)"
  using establishesD[OF showLoading_exclusive] establishesD[OF showError_exclusive]
        establishesD[OF displayResults_exclusive] establishesD[OF handleFileUpload_exclusive]
        preservesD[OF resetApp_preserves_exclusive]
  by (cases op) (simp_all add: audio_ended_sections)

lemma run_preserves_exclusive:
  "at_most_one_visible s \<Longrightarrow> at_most_one_visible (run nts ops s)"
  by (induction ops arbitrary: s) (simp_all add: perform_preserves_exclusive)

text \<open>
  Claim C2. After \<^verbatim>\<open>showLoading\<close>, \<^verbatim>\<open>displayResults\<close>, \<^verbatim>\<open>showError\<close> and
  \<^verbatim>\<open>resetApp\<close> (on a page that has the file input) at most one of the loading,
  results and error sections is visible, whatever the page was before; and from a page
  with at most one visible section, every run of operations, uploads and playback ends
  included, leads to such a page.
\<close>

theorem sections_mutually_exclusive:
  assumes "fileInput s \<noteq> None" and "at_most_one_visible s0"
  shows "at_most_one_visible (snd (showLoading s)) \<and>
         at_most_one_visible (snd (displayResults nts result f s)) \<and>
         at_most_one_visible (snd (showError nts message s)) \<and>
         at_most_one_visible (snd (resetApp s)) \<and>
         at_most_one_visible (run nts ops s0)"
  using assms establishesD[OF showLoading_exclusive] establishesD[OF showError_exclusive]
        establishesD[OF displayResults_exclusive] resetApp_exclusive run_preserves_exclusive
  by simp

theorem sections_mutually_exclusive_witness:
  "fileInput fresh_page \<noteq> None \<and> at_most_one_visible fresh_page \<and>
   at_most_one_visible (snd (showLoading fresh_page)) \<and>
   at_most_one_visible (snd (displayResults (\<lambda>r. []) (Obj [(''success'', Bool True)])
      \<lparr>file_name = ''clip.wav'', file_size = 1000\<rparr> fresh_page)) \<and>
   at_most_one_visible (snd (showError (\<lambda>r. []) (Str ''bad audio'') fresh_page)) \<and>
   at_most_one_visible (snd (resetApp fresh_page)) \<and>
   at_most_one_visible (run (\<lambda>r. []) [ShowLoading, ShowError (Str ''bad audio''), ResetApp] fresh_page)"
proof -
  have a: "fileInput fresh_page \<noteq> None" by (simp add: fresh_page_def)
  have b: "at_most_one_visible fresh_page"
    by (simp add: fresh_page_def at_most_one_visible_def visible_sections_def visible_def)
  show ?thesis
    using sections_mutually_exclusive[OF a b, of "\<lambda>r. []" "Obj [(''success'', Bool True)]"
            "\<lparr>file_name = ''clip.wav'', file_size = 1000\<rparr>" "Str ''bad audio''"
            "[ShowLoading, ShowError (Str ''bad audio''), ResetApp]"] a b
    by (simp del: run.simps)
qed

section \<open>Errors reported by the server\<close>

lemma showError_text:
  assumes "errorMessage s \<noteq> None" and "errorSection s \<noteq> None"
      and "textContent_value nts message = Some m"
  shows "showError nts message s =
     (Normal, (hideAllSections s)\<lparr>errorMessage := Some m, errorSection := Some ''block''\<rparr>)"
  using assms by (auto simp: showError_def then_do_def assign_def hideAllSections_def)

lemma handleFileUpload_server_error:
  assumes "fileExtension (file_name f) = Some ext" and "js_includes allowedExtensions ext"
      and "file_size f \<le> 16 * 1024 * 1024"
      and "loadingSection s \<noteq> None" and "errorMessage s \<noteq> None" and "errorSection s \<noteq> None"
      and "get_prop result ''success'' = Some ok" and "\<not> truthy ok"
      and "get_prop result ''error'' = Some e"
      and "textContent_value nts (js_or e (Str msg_unknown_error)) = Some m"
  shows "fst (handleFileUpload nts f (Parsed result) s) = Normal \<and>
         ui_state (snd (handleFileUpload nts f (Parsed result) s)) = Some Error \<and>
         errorMessage (snd (handleFileUpload nts f (Parsed result) s)) = Some m"
proof -
  let ?s1 = "(hideAllSections s)\<lparr>loadingSection := Some ''block''\<rparr>"
  let ?s2 = "?s1\<lparr>requests := requests ?s1 @ [f]\<rparr>"
  have p: "errorMessage ?s2 \<noteq> None" "errorSection ?s2 \<noteq> None"
    using assms(5,6) by (auto simp: hideAllSections_def)
  have "upload nts f (Parsed result) ?s1 =
          showError nts (js_or e (Str msg_unknown_error)) ?s2"
    using assms(7-9) by (simp add: upload_def Let_def)
  then have "then_do showLoading (upload nts f (Parsed result)) s =
      (Normal, (hideAllSections ?s2)\<lparr>errorMessage := Some m, errorSection := Some ''block''\<rparr>)"
    using assms(4) showError_text[OF p assms(10)] by (simp add: then_do_def showLoading_eq)
  then have "handleFileUpload nts f (Parsed result) s =
      (Normal, (hideAllSections ?s2)\<lparr>errorMessage := Some m, errorSection := Some ''block''\<rparr>)"
    using assms(1-3) by (simp add: handleFileUpload_def try_catch_def)
  then show ?thesis by (simp add: error_page)
qed

lemma msg_unknown_error_nonempty: "msg_unknown_error \<noteq> []"
  by (simp add: msg_unknown_error_def)

lemma clip_wav: "fileExtension ''clip.wav'' = Some ''wav''" "js_includes allowedExtensions ''wav''"
  by (simp_all add: fileExtension_def js_pop_def toLowerCase_def lower_char_def
        js_includes_def allowedExtensions_def)

lemma fresh_page_ready: "document_ready fresh_page"
  by (simp add: document_ready_def fresh_page_def)

text \<open>
  Claim C5, as amended. For a response whose \<^verbatim>\<open>success\<close> is \<^verbatim>\<open>false\<close> and
  whose \<^verbatim>\<open>error\<close> is a string or absent, the upload of a valid file ends in the
  Error state; the message is the server's string when that is not empty, and the
  fallback message when the field is absent or is the empty string.
\<close>

theorem server_error_message:
  assumes "fileExtension (file_name f) = Some ext" and "js_includes allowedExtensions ext"
      and "file_size f \<le> 16 * 1024 * 1024"
      and "loadingSection s \<noteq> None" and "errorMessage s \<noteq> None" and "errorSection s \<noteq> None"
      and "get_prop result ''success'' = Some (Bool False)"
      and "get_prop result ''error'' = Some e" and "e = Undefined \<or> e = Str x"
  shows "fst (handleFileUpload nts f (Parsed result) s) = Normal \<and>
         ui_state (snd (handleFileUpload nts f (Parsed result) s)) = Some Error \<and>
         errorMessage (snd (handleFileUpload nts f (Parsed result) s)) =
           Some (if e = Undefined \<or> x = [] then msg_unknown_error else x)"
proof -
  have "textContent_value nts (js_or e (Str msg_unknown_error)) =
          Some (if e = Undefined \<or> x = [] then msg_unknown_error else x)"
    using assms(9) by (auto simp: js_or_def)
  then show ?thesis
    using handleFileUpload_server_error[OF assms(1-7) _ assms(8)] by simp
qed

theorem server_error_message_witness:
  "errorMessage (snd (handleFileUpload (\<lambda>r. []) \<lparr>file_name = ''clip.wav'', file_size = 1000\<rparr>
      (Parsed (Obj [(''success'', Bool False), (''error'', Str ''bad audio'')])) fresh_page))
     = Some ''bad audio'' \<and>
   errorMessage (snd (handleFileUpload (\<lambda>r. []) \<lparr>file_name = ''clip.wav'', file_size = 1000\<rparr>
      (Parsed (Obj [(''success'', Bool False)])) fresh_page))
     = Some msg_unknown_error"
  using server_error_message[of "\<lparr>file_name = ''clip.wav'', file_size = 1000\<rparr>" "''wav''"
          fresh_page "Obj [(''success'', Bool False), (''error'', Str ''bad audio'')]"
          "Str ''bad audio''" "''bad audio''" "\<lambda>r. []"]
        server_error_message[of "\<lparr>file_name = ''clip.wav'', file_size = 1000\<rparr>" "''wav''"
          fresh_page "Obj [(''success'', Bool False)]" Undefined "[]" "\<lambda>r. []"]
        clip_wav fresh_page_ready
  by (simp add: document_ready_def)

text \<open>
  The claim as first stated, with the server's string shown verbatim whenever one was
  supplied, fails for the empty string: the page shows the fallback message instead.
\<close>

theorem empty_server_error_not_verbatim:
  "errorMessage (snd (handleFileUpload (\<lambda>r. []) \<lparr>file_name = ''clip.wav'', file_size = 1000\<rparr>
      (Parsed (Obj [(''success'', Bool False), (''error'', Str [])])) fresh_page))
     = Some msg_unknown_error \<and> msg_unknown_error \<noteq> []"
  using handleFileUpload_server_error[of "\<lparr>file_name = ''clip.wav'', file_size = 1000\<rparr>" "''wav''"
          fresh_page "Obj [(''success'', Bool False), (''error'', Str [])]" "Bool False"
          "Str []" "\<lambda>r. []" msg_unknown_error]
        clip_wav fresh_page_ready msg_unknown_error_nonempty
  by (simp add: document_ready_def js_or_def)

text \<open>
  Claim C10. When \<^verbatim>\<open>success\<close> is \<^verbatim>\<open>false\<close> and the \<^verbatim>\<open>error\<close> field is
  there but is the empty string, the Error state shows the fallback message, which is
  not empty: the empty message is treated as an absent one.
\<close>

theorem empty_server_error_falls_back:
  assumes "fileExtension (file_name f) = Some ext" and "js_includes allowedExtensions ext"
      and "file_size f \<le> 16 * 1024 * 1024"
      and "loadingSection s \<noteq> None" and "errorMessage s \<noteq> None" and "errorSection s \<noteq> None"
      and "get_prop result ''success'' = Some (Bool False)"
      and "get_prop result ''error'' = Some (Str [])"
  shows "fst (handleFileUpload nts f (Parsed result) s) = Normal \<and>
         ui_state (snd (handleFileUpload nts f (Parsed result) s)) = Some Error \<and>
         errorMessage (snd (handleFileUpload nts f (Parsed result) s)) = Some msg_unknown_error \<and>
         msg_unknown_error \<noteq> [] \<and>
         errorMessage (snd (handleFileUpload nts f (Parsed result) s)) =
           errorMessage (snd (handleFileUpload nts f
              (Parsed (Obj [(''success'', Bool False)])) s))"
proof -
  have m: "textContent_value nts (js_or (Str []) (Str msg_unknown_error)) = Some msg_unknown_error"
    by (simp add: js_or_def)
  have u: "textContent_value nts (js_or Undefined (Str msg_unknown_error)) = Some msg_unknown_error"
    by (simp add: js_or_def)
  have "errorMessage (snd (handleFileUpload nts f (Parsed (Obj [(''success'', Bool False)])) s))
          = Some msg_unknown_error"
    using handleFileUpload_server_error[OF assms(1-6) _ _ _ u, of "Obj [(''success'', Bool False)]" "Bool False"]
    by simp
  then show ?thesis
    using handleFileUpload_server_error[OF assms(1-7) _ assms(8) m] msg_unknown_error_nonempty
    by simp
qed

theorem empty_server_error_falls_back_witness:
  "errorMessage (snd (handleFileUpload (\<lambda>r. []) \<lparr>file_name = ''song.MP3'', file_size = 2048\<rparr>
      (Parsed (Obj [(''error'', Str []), (''success'', Bool False)])) fresh_page))
     = Some msg_unknown_error"
proof -
  have e: "fileExtension ''song.MP3'' = Some ''mp3''" "js_includes allowedExtensions ''mp3''"
    by (simp_all add: fileExtension_def js_pop_def toLowerCase_def lower_char_def
          js_includes_def allowedExtensions_def)
  show ?thesis
    using empty_server_error_falls_back[of "\<lparr>file_name = ''song.MP3'', file_size = 2048\<rparr>"
            "''mp3''" fresh_page "Obj [(''error'', Str []), (''success'', Bool False)]" "\<lambda>r. []"]
          e fresh_page_ready
    by (simp add: document_ready_def)
qed

section \<open>Reset\<close>

text \<open>
  Claim C8. On a page that has the file input, \<^verbatim>\<open>resetApp\<close> completes from any
  state: the file input is cleared, no section is visible (the state is Idle), no player
  is attached, and a second call changes nothing.
\<close>

theorem resetApp_idle_idempotent:
  assumes "fileInput s \<noteq> None"
  shows "fst (resetApp s) = Normal \<and>
         fileInput (snd (resetApp s)) = Some [] \<and>
         ui_state (snd (resetApp s)) = Some Idle \<and>
         visible_sections (snd (resetApp s)) = [] \<and>
         attached_urls (snd (resetApp s)) = [] \<and>
         resetApp (snd (resetApp s)) = resetApp s"
  using assms
  by (auto simp: resetApp_def then_do_def assign_def ui_state_def visible_def
        visible_sections_def attached_urls_def option.map_comp comp_def split: option.splits)

theorem resetApp_idle_idempotent_witness:
  "ui_state (fresh_page\<lparr>fileInput := Some ''clip.wav'', resultsSection := Some ''block'',
       audioPlayer := Some [\<lparr>audio_controls = True, audio_width = ''100%'',
         audio_maxWidth = ''500px'', audio_src = 0\<rparr>]\<rparr>) = Some Results \<and>
   snd (resetApp (fresh_page\<lparr>fileInput := Some ''clip.wav'', resultsSection := Some ''block'',
       audioPlayer := Some [\<lparr>audio_controls = True, audio_width = ''100%'',
         audio_maxWidth = ''500px'', audio_src = 0\<rparr>]\<rparr>)) = fresh_page"
  using resetApp_idle_idempotent[of "fresh_page\<lparr>fileInput := Some ''clip.wav'',
       resultsSection := Some ''block'',
       audioPlayer := Some [\<lparr>audio_controls = True, audio_width = ''100%'',
         audio_maxWidth = ''500px'', audio_src = 0\<rparr>]\<rparr>"]
  by (simp add: fresh_page_def resetApp_def then_do_def assign_def ui_state_def visible_def)

section \<open>The extension of the file name\<close>

lemma js_split_no_separator: "sep \<notin> set name \<Longrightarrow> js_split name sep = [name]"
  by (induction name) auto

lemma js_split_first_separator:
  "sep \<notin> set xs \<Longrightarrow> js_split (xs @ sep # ys) sep = xs # js_split ys sep"
  by (induction xs) auto

lemma takeWhile_all: "\<forall>x\<in>set xs. P x \<Longrightarrow> takeWhile P xs = xs"
  by (induction xs) auto

lemma last_js_split: "last (js_split name sep) = rev (takeWhile (\<lambda>c. c \<noteq> sep) (rev name))"
proof (induction name rule: length_induct)
  case (1 name)
  show ?case
  proof (cases "sep \<in> set name")
    case False
    then have "takeWhile (\<lambda>c. c \<noteq> sep) (rev name) = rev name"
      by (intro takeWhile_all) auto
    then show ?thesis using False
      by (simp add: js_split_no_separator del: takeWhile_eq_all_conv)
  next
    case True
    then obtain xs ys where n: "name = xs @ sep # ys" and x: "sep \<notin> set xs"
      by (auto dest: split_list_first)
    have "last (js_split name sep) = last (js_split ys sep)"
      using n x js_split_nonempty[of ys sep] by (simp add: js_split_first_separator)
    also have "\<dots> = rev (takeWhile (\<lambda>c. c \<noteq> sep) (rev ys))"
      using 1 n by simp
    also have "takeWhile (\<lambda>c. c \<noteq> sep) (rev ys) = takeWhile (\<lambda>c. c \<noteq> sep) (rev name)"
    proof (cases "sep \<in> set ys")
      case True
      then show ?thesis using n by (auto simp: takeWhile_append)
    next
      case False
      then have "takeWhile (\<lambda>c. c \<noteq> sep) (rev ys) = rev ys"
        by (intro takeWhile_all) auto
      then show ?thesis using n False by (simp add: takeWhile_append)
    qed
    finally show ?thesis .
  qed
qed

lemma fileExtension_eq: "fileExtension name = Some (toLowerCase (after_final_dot name))"
  by (simp add: fileExtension_def js_pop_def js_split_nonempty last_js_split after_final_dot_def)

lemma after_final_dot_no_dot:
  assumes "CHR ''.'' \<notin> set name"
  shows "after_final_dot name = name"
proof -
  have "takeWhile (\<lambda>c. c \<noteq> CHR ''.'') (rev name) = rev name"
    using assms by (auto simp: takeWhile_eq_all_conv)
  then show ?thesis by (simp only: after_final_dot_def rev_rev_ident)
qed

lemma after_final_dot_suffix:
  assumes "CHR ''.'' \<in> set name"
  shows "\<exists>before. name = before @ ''.'' @ after_final_dot name"
    and "CHR ''.'' \<notin> set (after_final_dot name)"
proof -
  let ?P = "\<lambda>c. c \<noteq> CHR ''.''"
  have "rev name = takeWhile ?P (rev name) @ dropWhile ?P (rev name)" by simp
  moreover have "dropWhile ?P (rev name) \<noteq> []" using assms by (auto simp: dropWhile_eq_Nil_conv)
  then have "dropWhile ?P (rev name) = CHR ''.'' # tl (dropWhile ?P (rev name))"
    using hd_dropWhile[of ?P "rev name"] by (cases "dropWhile ?P (rev name)") auto
  ultimately have "rev name = takeWhile ?P (rev name) @ CHR ''.'' # tl (dropWhile ?P (rev name))"
    by simp
  then have "rev (rev name) = rev (takeWhile ?P (rev name) @ CHR ''.'' # tl (dropWhile ?P (rev name)))"
    by (rule arg_cong)
  then have "name = rev (tl (dropWhile ?P (rev name))) @ ''.'' @ after_final_dot name"
    by (simp add: after_final_dot_def)
  then show "\<exists>before. name = before @ ''.'' @ after_final_dot name" by blast
  show "CHR ''.'' \<notin> set (after_final_dot name)"
    using set_takeWhileD[of "CHR ''.''" ?P "rev name"] by (auto simp: after_final_dot_def)
qed

lemma dotted_name_accepted_iff:
  "CHR ''.'' \<in> set name \<Longrightarrow> fileExtension name = Some ext \<Longrightarrow>
   js_includes allowedExtensions ext
     = (toLowerCase (after_final_dot name) \<in> {''mp3'', ''wav'', ''ogg'', ''m4a''})"
  by (auto simp: fileExtension_eq js_includes_def allowedExtensions_def)

lemma extension_case_insensitive:
  "fileExtension ''clip.WAV'' = fileExtension ''clip.wav''"
  by (simp add: fileExtension_def js_pop_def toLowerCase_def lower_char_def)

text \<open>
  Claim C1. The claim holds for every name that contains a dot
  (\<open>dotted_name_accepted_iff\<close>). It fails for a name without one: \<^verbatim>\<open>split\<close> returns
  the whole name as the only piece, so the name itself is taken for the extension, and a
  file named \<^verbatim>\<open>mp3\<close> passes the check and is uploaded.
\<close>

theorem extensionless_name_passes_check:
  "CHR ''.'' \<notin> set ''mp3'' \<and>
   js_split ''mp3'' (CHR ''.'') = [''mp3''] \<and>
   fileExtension ''mp3'' = Some ''mp3'' \<and>
   js_includes allowedExtensions ''mp3'' \<and>
   requests (snd (handleFileUpload nts \<lparr>file_name = ''mp3'', file_size = 1000\<rparr> net fresh_page))
     = [\<lparr>file_name = ''mp3'', file_size = 1000\<rparr>]"
proof -
  have e: "fileExtension ''mp3'' = Some ''mp3''"
    by (simp add: fileExtension_def js_pop_def toLowerCase_def lower_char_def)
  have a: "js_includes allowedExtensions ''mp3''"
    by (simp add: js_includes_def allowedExtensions_def)
  have "requests (snd (handleFileUpload nts \<lparr>file_name = ''mp3'', file_size = 1000\<rparr> net fresh_page))
     = requests fresh_page @ [\<lparr>file_name = ''mp3'', file_size = 1000\<rparr>]"
    by (rule handleFileUpload_requests_valid[where ext="''mp3''"])
       (simp_all add: e a fresh_page_def)
  then show ?thesis using e a by (simp add: fresh_page_def)
qed

section \<open>Failures while rendering\<close>

lemma addAudioPlayer_error_regions: "preserves error_regions (addAudioPlayer f)"
  by (auto simp: preserves_def addAudioPlayer_def Let_def error_regions_def split: option.splits)

lemma display_stats_error_regions: "preserves error_regions (display_stats nts result)"
proof -
  have a: "\<And>x. preserves error_regions (assign meanPitch (\<lambda>v s. s\<lparr>meanPitch := Some v\<rparr>) x)"
    by (intro preserves_assign) (simp add: error_regions_def)
  have b: "\<And>x. preserves error_regions (assign pitchRange (\<lambda>v s. s\<lparr>pitchRange := Some v\<rparr>) x)"
    by (intro preserves_assign) (simp add: error_regions_def)
  show ?thesis
    unfolding preserves_def display_stats_def
    using preserves_then_do[OF a b, unfolded preserves_def]
    by (auto split: option.splits bool.splits)
qed

lemma render_steps_error_regions: "preserves error_regions (render_steps nts result f)"
  unfolding render_steps_def
  by (intro preserves_then_do preserves_assign preserves_pure display_stats_error_regions
        addAudioPlayer_error_regions)
     (auto simp: error_regions_def hideAllSections_def)

text \<open>
  Claim C7. On a page that has the error regions, \<^verbatim>\<open>displayResults\<close> never throws,
  whatever the response is: when a step of the rendering throws, the page ends in the
  Error state with the display-error message; when none does, the page is the one the
  steps left.
\<close>

theorem render_failure_is_caught:
  assumes "errorMessage s \<noteq> None" and "errorSection s \<noteq> None"
  shows "fst (displayResults nts result f s) = Normal \<and>
         (fst (render_steps nts result f s) = Throw \<longrightarrow>
            ui_state (snd (displayResults nts result f s)) = Some Error \<and>
            errorMessage (snd (displayResults nts result f s)) = Some msg_display_error) \<and>
         (fst (render_steps nts result f s) = Normal \<longrightarrow>
            displayResults nts result f s = render_steps nts result f s)"
proof -
  obtain c s1 where r: "render_steps nts result f s = (c, s1)" by (cases "render_steps nts result f s")
  have "error_regions (snd (render_steps nts result f s))"
    using preservesD[OF render_steps_error_regions, of s] assms by (simp add: error_regions_def)
  then have "errorMessage s1 \<noteq> None" "errorSection s1 \<noteq> None"
    using r by (simp_all add: error_regions_def)
  then have "showError nts (Str msg_display_error) s1 =
     (Normal, (hideAllSections s1)\<lparr>errorMessage := Some msg_display_error,
                                     errorSection := Some ''block''\<rparr>)"
    by (rule showError_Str)
  then show ?thesis
    using r by (cases c) (simp_all add: displayResults_def try_catch_def error_page)
qed

theorem render_failure_is_caught_witness:
  "fst (render_steps (\<lambda>r. []) (Obj [(''success'', Bool True), (''word'', Str ''hello''),
          (''phonetic'', Str ''helou''), (''plot'', Str ''iVBORw0KGgo=''), (''stats'', Obj [])])
        \<lparr>file_name = ''clip.wav'', file_size = 1000\<rparr> fresh_page) = Throw \<and>
   fst (displayResults (\<lambda>r. []) (Obj [(''success'', Bool True), (''word'', Str ''hello''),
          (''phonetic'', Str ''helou''), (''plot'', Str ''iVBORw0KGgo=''), (''stats'', Obj [])])
        \<lparr>file_name = ''clip.wav'', file_size = 1000\<rparr> fresh_page) = Normal \<and>
   errorMessage (snd (displayResults (\<lambda>r. []) (Obj [(''success'', Bool True), (''word'', Str ''hello''),
          (''phonetic'', Str ''helou''), (''plot'', Str ''iVBORw0KGgo=''), (''stats'', Obj [])])
        \<lparr>file_name = ''clip.wav'', file_size = 1000\<rparr> fresh_page)) = Some msg_display_error"
proof -
  have t: "fst (render_steps (\<lambda>r. []) (Obj [(''success'', Bool True), (''word'', Str ''hello''),
          (''phonetic'', Str ''helou''), (''plot'', Str ''iVBORw0KGgo=''), (''stats'', Obj [])])
        \<lparr>file_name = ''clip.wav'', file_size = 1000\<rparr> fresh_page) = Throw"
    by (simp add: render_steps_def then_do_def assign_def display_stats_def hideAllSections_def
          fresh_page_def)
  show ?thesis
    using render_failure_is_caught[of fresh_page "\<lambda>r. []"
            "Obj [(''success'', Bool True), (''word'', Str ''hello''),
              (''phonetic'', Str ''helou''), (''plot'', Str ''iVBORw0KGgo=''), (''stats'', Obj [])]"
            "\<lparr>file_name = ''clip.wav'', file_size = 1000\<rparr>"] t fresh_page_ready
    by (simp add: document_ready_def)
qed

section \<open>Object URLs\<close>

lemma leaked_fields:
  "object_urls t = object_urls s \<Longrightarrow> revoked t = revoked s \<Longrightarrow> audioPlayer t = audioPlayer s \<Longrightarrow>
   leaked u t = leaked u s"
  by (simp add: leaked_def attached_urls_def)

lemma showError_leaked: "preserves (leaked u) (showError nts m)"
  unfolding showError_def
  by (intro preserves_then_do preserves_assign preserves_pure)
     (simp_all add: hideAllSections_def leaked_def attached_urls_def)

lemma showLoading_leaked: "preserves (leaked u) showLoading"
  unfolding showLoading_def
  by (intro preserves_then_do preserves_assign preserves_pure)
     (simp_all add: hideAllSections_def leaked_def attached_urls_def)

lemma addAudioPlayer_leaked: "preserves (leaked u) (addAudioPlayer f)"
  by (auto simp: preserves_def addAudioPlayer_def Let_def leaked_def attached_urls_def
        split: option.splits)

lemma display_stats_leaked: "preserves (leaked u) (display_stats nts result)"
proof -
  have a: "\<And>x. preserves (leaked u) (assign meanPitch (\<lambda>v s. s\<lparr>meanPitch := Some v\<rparr>) x)"
    by (intro preserves_assign) (simp add: leaked_def attached_urls_def)
  have b: "\<And>x. preserves (leaked u) (assign pitchRange (\<lambda>v s. s\<lparr>pitchRange := Some v\<rparr>) x)"
    by (intro preserves_assign) (simp add: leaked_def attached_urls_def)
  show ?thesis
    unfolding preserves_def display_stats_def
    using preserves_then_do[OF a b, unfolded preserves_def]
    by (auto split: option.splits bool.splits)
qed

lemma render_steps_leaked: "preserves (leaked u) (render_steps nts result f)"
  unfolding render_steps_def
  by (intro preserves_then_do preserves_assign preserves_pure display_stats_leaked
        addAudioPlayer_leaked)
     (simp_all add: hideAllSections_def leaked_def attached_urls_def)

lemma displayResults_leaked: "preserves (leaked u) (displayResults nts result f)"
  unfolding displayResults_def
  by (intro preserves_try_catch render_steps_leaked showError_leaked)

lemma upload_leaked: "preserves (leaked u) (upload nts f net)"
proof -
  have r: "\<And>s. leaked u (s\<lparr>requests := requests s @ [f]\<rparr>) = leaked u s"
    by (simp add: leaked_def attached_urls_def)
  show ?thesis
    using preservesD[OF displayResults_leaked] preservesD[OF showError_leaked]
    by (auto simp: preserves_def upload_def Let_def r split: response.splits option.splits)
qed

lemma handleFileUpload_leaked: "preserves (leaked u) (handleFileUpload nts f net)"
proof -
  have "preserves (leaked u)
          (try_catch (then_do showLoading (upload nts f net)) (showError nts (Str msg_network_error)))"
    by (intro preserves_try_catch preserves_then_do showLoading_leaked upload_leaked showError_leaked)
  then show ?thesis
    using preservesD[OF showError_leaked]
    by (auto simp: preserves_def handleFileUpload_def split: option.splits)
qed

lemma resetApp_leaked: "preserves (leaked u) resetApp"
proof -
  have "leaked u (snd (resetApp s))" if "leaked u s" for s
    using that
    by (cases "fileInput s"; cases "audioPlayer s")
       (simp_all add: resetApp_def then_do_def assign_def leaked_def attached_urls_def)
  then show ?thesis by (simp add: preserves_def)
qed

lemma audio_ended_leaked: "leaked u s \<Longrightarrow> leaked u (audio_ended i s)"
  by (auto simp: audio_ended_def ended_listener_def leaked_def attached_urls_def
        split: option.splits)

lemma perform_leaked: "leaked u s \<Longrightarrow> leaked u (perform nts op s)"
  using preservesD[OF showLoading_leaked] preservesD[OF showError_leaked]
        preservesD[OF displayResults_leaked] preservesD[OF handleFileUpload_leaked]
        preservesD[OF resetApp_leaked]
  by (cases op) (simp_all add: audio_ended_leaked)

lemma run_leaked: "leaked u s \<Longrightarrow> leaked u (run nts ops s)"
  by (induction ops arbitrary: s) (simp_all add: perform_leaked)

lemma addAudioPlayer_fresh_page:
  "snd (addAudioPlayer f fresh_page) =
     fresh_page\<lparr>audioPlayer := Some [\<lparr>audio_controls = True, audio_width = ''100%'',
                    audio_maxWidth = ''500px'', audio_src = 0\<rparr>],
                 object_urls := [f]\<rparr>"
  by (simp add: addAudioPlayer_def fresh_page_def)

section \<open>Formatting numbers\<close>

lemma digits_small: "n < 10 \<Longrightarrow> digits n = [digit_char n]"
  by (subst digits.simps) simp

lemma digits_large: "10 \<le> n \<Longrightarrow> digits n = digits (n div 10) @ [digit_char (n mod 10)]"
  by (subst digits.simps) simp

lemma digits_nonempty: "digits n \<noteq> []"
  by (subst digits.simps) simp

lemma length_fraction_digits: "length (fraction_digits f m) = f"
  by (induction f arbitrary: m) simp_all

lemma fraction_digits_zero: "fraction_digits f 0 = replicate f (CHR ''0'')"
  by (induction f) (simp_all add: digit_char_def replicate_append_same)

lemma zero_padding:
  "(if length (digits n) \<le> f then replicate (f + 1 - length (digits n)) (CHR ''0'') @ digits n
    else digits n)
   = digits (n div 10 ^ f) @ fraction_digits f (n mod 10 ^ f)"
proof (induction f arbitrary: n)
  case 0
  have "\<not> length (digits n) \<le> 0" using digits_nonempty[of n] by simp
  then show ?case by simp
next
  case (Suc f)
  show ?case
  proof (cases "n < 10")
    case True
    have "n < 10 * 10 ^ f"
    proof -
      have "(1::nat) \<le> 10 ^ f" by simp
      then have "(10::nat) * 1 \<le> 10 * 10 ^ f" by (rule mult_le_mono2)
      then show ?thesis using True by linarith
    qed
    then have q: "n div (10 * 10 ^ f) = 0" "n mod (10 * 10 ^ f) = n" by simp_all
    have z: "digit_char 0 = CHR ''0''" by (simp add: digit_char_def)
    show ?thesis
      using True by (simp add: q digits_small z fraction_digits_zero)
  next
    case False
    then have d: "digits n = digits (n div 10) @ [digit_char (n mod 10)]"
      by (simp add: digits_large)
    have a1: "n div (10 * 10 ^ f) = (n div 10) div 10 ^ f"
      by (simp add: div_mult2_eq)
    have a2: "(n mod (10 * 10 ^ f)) div 10 = (n div 10) mod 10 ^ f"
      by (simp add: mod_mult2_eq)
    have a3: "(n mod (10 * 10 ^ f)) mod 10 = n mod 10"
      by (simp add: mod_mult2_eq)
    have "(if length (digits n) \<le> Suc f
           then replicate (Suc f + 1 - length (digits n)) (CHR ''0'') @ digits n else digits n)
        = (if length (digits (n div 10)) \<le> f
           then replicate (f + 1 - length (digits (n div 10))) (CHR ''0'') @ digits (n div 10)
           else digits (n div 10)) @ [digit_char (n mod 10)]"
      by (simp add: d)
    also have "\<dots> = digits ((n div 10) div 10 ^ f) @ fraction_digits f ((n div 10) mod 10 ^ f)
                    @ [digit_char (n mod 10)]"
      by (simp add: Suc.IH)
    finally show ?thesis by (simp add: a1 a2 a3)
  qed
qed

lemma toFixed_decimal_places:
  assumes "f \<noteq> 0" and "\<bar>r\<bar> < 10 ^ 21"
  shows "toFixed nts (Finite r) f = decimal_places f r"
proof -
  define n where "n = nat \<lfloor>\<bar>r\<bar> * 10 ^ f + 1 / 2\<rfloor>"
  define m' where "m' = (if length (digits n) \<le> f
      then replicate (f + 1 - length (digits n)) (CHR ''0'') @ digits n else digits n)"
  define k' where "k' = (if length (digits n) \<le> f then f + 1 else length (digits n))"
  have m: "m' = digits (n div 10 ^ f) @ fraction_digits f (n mod 10 ^ f)"
    unfolding m'_def by (rule zero_padding)
  have "k' = length m'" by (simp add: k'_def m'_def)
  then have k: "k' - f = length (digits (n div 10 ^ f))"
    by (simp add: m length_fraction_digits)
  have "toFixed nts (Finite r) f = (if r < 0 then ''-'' else []) @ take (k' - f) m' @ ''.'' @ drop (k' - f) m'"
    using assms by (simp add: toFixed_def Let_def n_def m'_def k'_def)
  also have "\<dots> = (if r < 0 then ''-'' else []) @ digits (n div 10 ^ f) @ ''.''
                    @ fraction_digits f (n mod 10 ^ f)"
    by (simp add: k m)
  finally show ?thesis by (simp add: decimal_places_def rounded_scaled_def n_def)
qed

lemma toFixed_exponent_range:
  "10 ^ 21 \<le> \<bar>r\<bar> \<Longrightarrow> toFixed nts (Finite r) f = (if r < 0 then ''-'' else []) @ nts \<bar>r\<bar>"
  by (simp add: toFixed_def Let_def)

lemma rounded_scaled_nearest: "\<bar>of_nat (rounded_scaled f r) - \<bar>r\<bar> * 10 ^ f\<bar> \<le> (1 / 2 :: rat)"
proof -
  have "0 \<le> \<bar>r\<bar> * 10 ^ f + 1 / 2" by simp
  then have "0 \<le> \<lfloor>\<bar>r\<bar> * 10 ^ f + 1 / 2\<rfloor>" by simp
  then have "of_nat (rounded_scaled f r) = (of_int \<lfloor>\<bar>r\<bar> * 10 ^ f + 1 / 2\<rfloor> :: rat)"
    by (simp add: rounded_scaled_def)
  then show ?thesis by linarith
qed

section \<open>Rendering a successful response\<close>

lemma display_stats_placeholder:
  assumes "meanPitch s \<noteq> None" and "pitchRange s \<noteq> None"
      and "get_prop result ''stats'' = Some st"
      and "\<not> truthy st \<or> object_keys_length st = Some 0"
  shows "display_stats nts result s = (Normal, s\<lparr>meanPitch := Some ''N/A'', pitchRange := Some ''N/A''\<rparr>)"
  using assms by (auto simp: display_stats_def then_do_def assign_def)

lemma display_stats_formatted:
  assumes "meanPitch s \<noteq> None" and "pitchRange s \<noteq> None"
      and "get_prop result ''stats'' = Some st"
      and "truthy st" and "object_keys_length st = Some n" and "0 < n"
      and "get_prop st ''mean_pitch'' = Some (Num (Finite mean))" and "\<bar>mean\<bar> < 10 ^ 21"
      and "get_prop st ''min_pitch'' = Some (Num (Finite lo))" and "\<bar>lo\<bar> < 10 ^ 21"
      and "get_prop st ''max_pitch'' = Some (Num (Finite hi))" and "\<bar>hi\<bar> < 10 ^ 21"
  shows "display_stats nts result s =
     (Normal, s\<lparr>meanPitch := Some (decimal_places 1 mean @ '' Hz''),
                 pitchRange := Some (decimal_places 1 lo @ '' - '' @ decimal_places 1 hi @ '' Hz'')\<rparr>)"
  using assms by (auto simp: display_stats_def then_do_def assign_def toFixed_decimal_places)

lemma render_steps_success:
  assumes "document_ready s"
      and "get_prop result ''word'' = Some w" and "textContent_value nts w = Some wt"
      and "get_prop result ''phonetic'' = Some p" and "textContent_value nts p = Some pt"
      and "display_stats nts result
             ((hideAllSections s)\<lparr>wordText := Some wt, phoneticText := Some pt\<rparr>)
           = (Normal, (hideAllSections s)\<lparr>wordText := Some wt, phoneticText := Some pt,
                         meanPitch := Some mp, pitchRange := Some pr\<rparr>)"
      and "get_prop result ''duration'' = Some (Num (Finite d))" and "\<bar>d\<bar> < 10 ^ 21"
      and "get_prop result ''plot'' = Some pl" and "ToString nts pl = Some b"
  shows "render_steps nts result f s =
     (Normal, (hideAllSections s)\<lparr>wordText := Some wt, phoneticText := Some pt,
        meanPitch := Some mp, pitchRange := Some pr,
        duration := Some (decimal_places 2 d @ seconds_suffix),
        plotImage := Some (''data:image/png;base64,'' @ b, ''block''),
        audioPlayer := Some [\<lparr>audio_controls = True, audio_width = ''100%'',
           audio_maxWidth = ''500px'', audio_src = length (object_urls s)\<rparr>],
        object_urls := object_urls s @ [f],
        resultsSection := Some ''block''\<rparr>)"
proof -
  have h: "wordText (hideAllSections s) \<noteq> None" "phoneticText (hideAllSections s) \<noteq> None"
    "duration (hideAllSections s) \<noteq> None" "plotImage (hideAllSections s) \<noteq> None"
    "audioPlayer (hideAllSections s) \<noteq> None" "resultsSection (hideAllSections s) \<noteq> None"
    "object_urls (hideAllSections s) = object_urls s"
    using assms(1) by (auto simp: document_ready_def hideAllSections_def)
  show ?thesis
    unfolding render_steps_def
    using h assms(2-5,7-10)
    by (auto simp: then_do_def assign_def assms(6) addAudioPlayer_def Let_def
          toFixed_decimal_places)
qed

lemma results_page:
  fixes s :: page
  assumes "document_ready s"
  shows "ui_state ((hideAllSections s)\<lparr>wordText := a, phoneticText := b, meanPitch := c,
            pitchRange := d, duration := e, plotImage := g, audioPlayer := h, object_urls := i,
            resultsSection := Some ''block''\<rparr>) = Some Results"
  using assms
  by (auto simp: document_ready_def ui_state_def hideAllSections_def visible_def)

lemma displayResults_success:
  assumes "document_ready s"
      and "get_prop result ''word'' = Some (Str w)"
      and "get_prop result ''phonetic'' = Some (Str ph)"
      and "get_prop result ''plot'' = Some (Str pl)"
      and "get_prop result ''duration'' = Some (Num (Finite d))" and "\<bar>d\<bar> < 10 ^ 21"
      and "get_prop result ''stats'' = Some st"
      and "st = Undefined \<or> st = Obj [] \<or>
           (st = Obj kvs \<and> kvs \<noteq> [] \<and>
            get_prop st ''mean_pitch'' = Some (Num (Finite mean)) \<and> \<bar>mean\<bar> < 10 ^ 21 \<and>
            get_prop st ''min_pitch'' = Some (Num (Finite lo)) \<and> \<bar>lo\<bar> < 10 ^ 21 \<and>
            get_prop st ''max_pitch'' = Some (Num (Finite hi)) \<and> \<bar>hi\<bar> < 10 ^ 21)"
  shows "displayResults nts result f s =
     (Normal, (hideAllSections s)\<lparr>wordText := Some w, phoneticText := Some ph,
        meanPitch := Some (if st = Undefined \<or> st = Obj [] then ''N/A''
                           else decimal_places 1 mean @ '' Hz''),
        pitchRange := Some (if st = Undefined \<or> st = Obj [] then ''N/A''
                            else decimal_places 1 lo @ '' - '' @ decimal_places 1 hi @ '' Hz''),
        duration := Some (decimal_places 2 d @ seconds_suffix),
        plotImage := Some (''data:image/png;base64,'' @ pl, ''block''),
        audioPlayer := Some [\<lparr>audio_controls = True, audio_width = ''100%'',
           audio_maxWidth = ''500px'', audio_src = length (object_urls s)\<rparr>],
        object_urls := object_urls s @ [f],
        resultsSection := Some ''block''\<rparr>)"
proof -
  let ?s1 = "(hideAllSections s)\<lparr>wordText := Some w, phoneticText := Some ph\<rparr>"
  let ?mp = "if st = Undefined \<or> st = Obj [] then ''N/A'' else decimal_places 1 mean @ '' Hz''"
  let ?pr = "if st = Undefined \<or> st = Obj [] then ''N/A''
             else decimal_places 1 lo @ '' - '' @ decimal_places 1 hi @ '' Hz''"
  have p: "meanPitch ?s1 \<noteq> None" "pitchRange ?s1 \<noteq> None"
    using assms(1) by (auto simp: document_ready_def hideAllSections_def)
  have st: "display_stats nts result ?s1 = (Normal, ?s1\<lparr>meanPitch := Some ?mp, pitchRange := Some ?pr\<rparr>)"
  proof (cases "st = Undefined \<or> st = Obj []")
    case True
    then have "\<not> truthy st \<or> object_keys_length st = Some 0" by auto
    then show ?thesis
      using display_stats_placeholder[OF p assms(7)] True by simp
  next
    case False
    then have k: "st = Obj kvs" "kvs \<noteq> []"
      and v: "get_prop st ''mean_pitch'' = Some (Num (Finite mean))" "\<bar>mean\<bar> < 10 ^ 21"
        "get_prop st ''min_pitch'' = Some (Num (Finite lo))" "\<bar>lo\<bar> < 10 ^ 21"
        "get_prop st ''max_pitch'' = Some (Num (Finite hi))" "\<bar>hi\<bar> < 10 ^ 21"
      using assms(8) by auto
    have "truthy st" "object_keys_length st = Some (length kvs)" "0 < length kvs"
      using k by simp_all
    then show ?thesis
      using display_stats_formatted[OF p assms(7) _ _ _ v(1,2,3,4,5,6)] False by simp
  qed
  have "render_steps nts result f s =
     (Normal, (hideAllSections s)\<lparr>wordText := Some w, phoneticText := Some ph,
        meanPitch := Some ?mp, pitchRange := Some ?pr,
        duration := Some (decimal_places 2 d @ seconds_suffix),
        plotImage := Some (''data:image/png;base64,'' @ pl, ''block''),
        audioPlayer := Some [\<lparr>audio_controls = True, audio_width = ''100%'',
           audio_maxWidth = ''500px'', audio_src = length (object_urls s)\<rparr>],
        object_urls := object_urls s @ [f],
        resultsSection := Some ''block''\<rparr>)"
    by (rule render_steps_success[OF assms(1,2) _ assms(3) _ _ assms(5,6,4)]) (simp_all add: st)
  then show ?thesis
    by (simp add: displayResults_def try_catch_def)
qed





section \<open>Releasing object URLs\<close>

lemma handleFileUpload_success:
  assumes "fileExtension (file_name f) = Some ext" and "js_includes allowedExtensions ext"
      and "file_size f \<le> 16 * 1024 * 1024"
      and "document_ready s"
      and "get_prop result ''success'' = Some ok" and "truthy ok"
      and "get_prop result ''word'' = Some (Str w)"
      and "get_prop result ''phonetic'' = Some (Str ph)"
      and "get_prop result ''plot'' = Some (Str pl)"
      and "get_prop result ''duration'' = Some (Num (Finite d))" and "\<bar>d\<bar> < 10 ^ 21"
      and "get_prop result ''stats'' = Some Undefined"
  shows "fst (handleFileUpload nts f (Parsed result) s) = Normal"
    and "document_ready (snd (handleFileUpload nts f (Parsed result) s))"
    and "ui_state (snd (handleFileUpload nts f (Parsed result) s)) = Some Results"
    and "object_urls (snd (handleFileUpload nts f (Parsed result) s)) = object_urls s @ [f]"
    and "attached_urls (snd (handleFileUpload nts f (Parsed result) s)) = [length (object_urls s)]"
    and "revoked (snd (handleFileUpload nts f (Parsed result) s)) = revoked s"
proof -
  let ?s1 = "(hideAllSections s)\<lparr>loadingSection := Some ''block''\<rparr>"
  let ?s2 = "?s1\<lparr>requests := requests ?s1 @ [f]\<rparr>"
  have r: "document_ready ?s2" "object_urls ?s2 = object_urls s" "revoked ?s2 = revoked s"
    using assms(4) by (auto simp: document_ready_def hideAllSections_def)
  have l: "loadingSection s \<noteq> None" using assms(4) by (simp add: document_ready_def)
  have u: "upload nts f (Parsed result) ?s1 = displayResults nts result f ?s2"
    using assms(5,6) by (simp add: upload_def Let_def)
  have d: "displayResults nts result f ?s2 =
     (Normal, (hideAllSections ?s2)\<lparr>wordText := Some w, phoneticText := Some ph,
        meanPitch := Some ''N/A'', pitchRange := Some ''N/A'',
        duration := Some (decimal_places 2 d @ seconds_suffix),
        plotImage := Some (''data:image/png;base64,'' @ pl, ''block''),
        audioPlayer := Some [\<lparr>audio_controls = True, audio_width = ''100%'',
           audio_maxWidth = ''500px'', audio_src = length (object_urls ?s2)\<rparr>],
        object_urls := object_urls ?s2 @ [f],
        resultsSection := Some ''block''\<rparr>)"
    using displayResults_success[OF r(1) assms(7-12), of "[]" 0 0 0 nts f] by simp
  have h: "handleFileUpload nts f (Parsed result) s = displayResults nts result f ?s2"
    using assms(1-3) l u d
    by (simp add: handleFileUpload_def try_catch_def then_do_def showLoading_eq)
  show "fst (handleFileUpload nts f (Parsed result) s) = Normal"
    unfolding h d by simp
  show "document_ready (snd (handleFileUpload nts f (Parsed result) s))"
    unfolding h d using r(1) by (auto simp: document_ready_def hideAllSections_def)
  show "ui_state (snd (handleFileUpload nts f (Parsed result) s)) = Some Results"
    unfolding h d using results_page[OF r(1)] by simp
  show "object_urls (snd (handleFileUpload nts f (Parsed result) s)) = object_urls s @ [f]"
    unfolding h d using r(2) by simp
  show "attached_urls (snd (handleFileUpload nts f (Parsed result) s)) = [length (object_urls s)]"
    unfolding h d using r(2) by (simp add: attached_urls_def)
  show "revoked (snd (handleFileUpload nts f (Parsed result) s)) = revoked s"
    unfolding h d using r(3) by (simp add: hideAllSections_def)
qed

lemma second_upload_leaks_first_url:
  "leaked 0 (run nts
     (HandleFileUpload \<lparr>file_name = ''one.wav'', file_size = 1000\<rparr>
        (Parsed (Obj [(''success'', Bool True), (''word'', Str ''hello''),
           (''phonetic'', Str ''helou''), (''duration'', Num (Finite (5 / 2))),
           (''plot'', Str ''iVBORw0KGgo='')])) #
      HandleFileUpload \<lparr>file_name = ''two.wav'', file_size = 2000\<rparr>
        (Parsed (Obj [(''success'', Bool True), (''word'', Str ''hello''),
           (''phonetic'', Str ''helou''), (''duration'', Num (Finite (5 / 2))),
           (''plot'', Str ''iVBORw0KGgo='')])) # ops) fresh_page)"
proof -
  let ?ok = "Obj [(''success'', Bool True), (''word'', Str ''hello''),
           (''phonetic'', Str ''helou''), (''duration'', Num (Finite (5 / 2))),
           (''plot'', Str ''iVBORw0KGgo='')]"
  let ?f1 = "\<lparr>file_name = ''one.wav'', file_size = 1000\<rparr>"
  let ?f2 = "\<lparr>file_name = ''two.wav'', file_size = 2000\<rparr>"
  let ?s1 = "snd (handleFileUpload nts ?f1 (Parsed ?ok) fresh_page)"
  let ?s2 = "snd (handleFileUpload nts ?f2 (Parsed ?ok) ?s1)"
  have e: "fileExtension (file_name ?f1) = Some ''wav''" "fileExtension (file_name ?f2) = Some ''wav''"
    "js_includes allowedExtensions ''wav''"
    by (simp_all add: fileExtension_def js_pop_def toLowerCase_def lower_char_def
          js_includes_def allowedExtensions_def)
  have g: "get_prop ?ok ''success'' = Some (Bool True)" "truthy (Bool True)"
    "get_prop ?ok ''word'' = Some (Str ''hello'')" "get_prop ?ok ''phonetic'' = Some (Str ''helou'')"
    "get_prop ?ok ''plot'' = Some (Str ''iVBORw0KGgo='')"
    "get_prop ?ok ''duration'' = Some (Num (Finite (5 / 2)))" "\<bar>5 / 2 :: rat\<bar> < 10 ^ 21"
    "get_prop ?ok ''stats'' = Some Undefined"
    by simp_all
  have z1: "file_size ?f1 \<le> 16 * 1024 * 1024" "file_size ?f2 \<le> 16 * 1024 * 1024" by simp_all
  note a = handleFileUpload_success[OF e(1) e(3) z1(1) fresh_page_ready g, of nts]
  note b = handleFileUpload_success[OF e(2) e(3) z1(2) a(2) g, of nts]
  have "object_urls ?s2 = [?f1, ?f2]" "attached_urls ?s2 = [1]" "revoked ?s2 = []"
    using a(4,6) b(4,5,6) by (simp_all add: fresh_page_def)
  then have "leaked 0 ?s2" by (simp add: leaked_def)
  then have "leaked 0 (run nts ops ?s2)" by (rule run_leaked)
  then show ?thesis by simp
qed

text \<open>
  Claim C9. The claim fails. The only call of \<^verbatim>\<open>URL.revokeObjectURL\<close> is in the
  \<^verbatim>\<open>ended\<close> listener. A second \<^verbatim>\<open>addAudioPlayer\<close> removes the first player
  without revoking its URL, and so does \<^verbatim>\<open>resetApp\<close>: URL 0 is then live and
  detached, and stays so in every run that follows. A player that is played to its end
  twice revokes its URL twice. The last part is the same leak in a whole session: two
  successful uploads, then any run.
\<close>

theorem replaced_player_url_leaks:
  "revoked (snd (addAudioPlayer f2 (snd (addAudioPlayer f1 fresh_page)))) = [] \<and>
   attached_urls (snd (addAudioPlayer f2 (snd (addAudioPlayer f1 fresh_page)))) = [1] \<and>
   live_urls (snd (addAudioPlayer f2 (snd (addAudioPlayer f1 fresh_page)))) = [0, 1] \<and>
   leaked 0 (run nts ops (snd (addAudioPlayer f2 (snd (addAudioPlayer f1 fresh_page))))) \<and>
   leaked 0 (run nts ops (snd (resetApp (snd (addAudioPlayer f1 fresh_page))))) \<and>
   revoked (audio_ended 0 (audio_ended 0 (snd (addAudioPlayer f1 fresh_page)))) = [0, 0] \<and>
   leaked 0 (run nts
     (HandleFileUpload \<lparr>file_name = ''one.wav'', file_size = 1000\<rparr>
        (Parsed (Obj [(''success'', Bool True), (''word'', Str ''hello''),
           (''phonetic'', Str ''helou''), (''duration'', Num (Finite (5 / 2))),
           (''plot'', Str ''iVBORw0KGgo='')])) #
      HandleFileUpload \<lparr>file_name = ''two.wav'', file_size = 2000\<rparr>
        (Parsed (Obj [(''success'', Bool True), (''word'', Str ''hello''),
           (''phonetic'', Str ''helou''), (''duration'', Num (Finite (5 / 2))),
           (''plot'', Str ''iVBORw0KGgo='')])) # ops) fresh_page)"
proof -
  let ?s1 = "snd (addAudioPlayer f1 fresh_page)"
  let ?s2 = "snd (addAudioPlayer f2 ?s1)"
  have s2: "?s2 = fresh_page\<lparr>audioPlayer := Some [\<lparr>audio_controls = True, audio_width = ''100%'',
                    audio_maxWidth = ''500px'', audio_src = 1\<rparr>],
                 object_urls := [f1, f2]\<rparr>"
    by (simp add: addAudioPlayer_def fresh_page_def)
  have a: "revoked ?s2 = []" "attached_urls ?s2 = [1]" "live_urls ?s2 = [0, 1]" "leaked 0 ?s2"
    unfolding s2 by (simp_all add: fresh_page_def attached_urls_def live_urls_def leaked_def upt_rec)
  have b: "leaked 0 (snd (resetApp ?s1))"
    unfolding addAudioPlayer_fresh_page
    by (simp add: resetApp_def then_do_def assign_def fresh_page_def leaked_def attached_urls_def)
  have c: "revoked (audio_ended 0 (audio_ended 0 ?s1)) = [0, 0]"
    unfolding addAudioPlayer_fresh_page
    by (simp add: audio_ended_def ended_listener_def fresh_page_def)
  show ?thesis
    using a(1-3) run_leaked[OF a(4)] run_leaked[OF b] c second_upload_leaks_first_url
    by blast
qed

end
